theory Spec2Isabelle
  imports Main "HOL-Library.Sublist" "HOL-Library.List_Lexorder" "HOL-Library.Char_ord"
    "HOL-Library.Multiset"
begin

section \<open>The evaluation engine of the feature-flag SDK (evaluation/evaluator.go)\<close>

text \<open>
  A shallow embedding of \<^verbatim>\<open>src/evaluation/evaluator.go\<close>. Conventions:

  \<^item> A Go pointer or slice pointer that the source compares with \<^verbatim>\<open>nil\<close> is an
    \<open>option\<close>; a slice is a list (a nil slice and an empty slice are both \<open>[]\<close>: the
    source never tells them apart in its results).
  \<^item> \<^verbatim>\<open>(T, error)\<close> results are \<open>error + T\<close>, with \<open>Inl\<close> the error.
  \<^item> The recursion through the lookup provider (a segment rule that matches on
    segments, a prerequisite flag that has prerequisites) need not end, so the
    recursive functions take fuel; \<open>None\<close> means that the call did not return
    within the fuel.
  \<^item> Log output is not modelled.
\<close>

subsection \<open>Data model\<close>

datatype error =
    ErrQueryProviderMissing
  | ErrEvaluationFlag string
  | ErrFlagKindMismatch string string
  | ErrVariationNotFound string
  | ErrExternal string

text \<open>
  A \<^verbatim>\<open>reflect.Value\<close> as far as \<^verbatim>\<open>evaluateClause\<close> inspects it: the invalid (zero)
  value, a value of kind Int or Int64, of kind Bool, of kind String, or a value of any
  other kind (floats, slices, maps, the narrower integers, ...). \<open>VOther r\<close> carries
  \<open>r\<close>, the text that the default format \<^verbatim>\<open>%v\<close> prints for the value.
\<close>

datatype attr_value = VInvalid | VInt int | VBool bool | VString string | VOther string

text \<open>
  The records below are the structs of the packages \<^verbatim>\<open>rest\<close> and \<^verbatim>\<open>evaluation\<close> that the
  evaluator reads. Their declarations are not among the sources; each record has the
  fields that the evaluator accesses, with the types its use of them shows, and the
  remaining fields of the data model of the specification. The identifier of a
  \<^verbatim>\<open>rest.TargetMap\<close> is a pointer to a string that \<^verbatim>\<open>evaluateVariationMap\<close>
  dereferences without a nil check; the record has the string itself, so an override
  entry whose target has no identifier (the source panics on it) is not a value of the
  model.
\<close>

record Target =
  Identifier :: string
  Name :: string
  Anonymous :: "bool option"
  Attributes :: "(string \<rightharpoonup> attr_value) option"

record Variation =
  Identifier :: string
  Value :: string

record Clause =
  Attribute :: string
  Op :: string
  Values :: "string list"

record WeightedVariation =
  Variation :: string
  Weight :: int

record Distribution =
  BucketBy :: string
  Variations :: "WeightedVariation list"

record Serve =
  Distribution :: "Distribution option"
  Variation :: "string option"

record ServingRule =
  Priority :: int
  Clauses :: "Clause list"
  Serve :: Serve

record TargetMap =
  Identifier :: string
  Name :: string

record VariationMap =
  Targets :: "TargetMap list option"
  TargetSegments :: "string list option"
  Variation :: string

record Prerequisite =
  Feature :: string
  Variations :: "string list"

record rest_Target =
  Identifier :: string
  Name :: string

record Segment =
  Identifier :: string
  Name :: string
  Excluded :: "rest_Target list option"
  Included :: "rest_Target list option"
  Rules :: "Clause list option"

text \<open>
  Modelled from the spec: the type \<^verbatim>\<open>rest.FeatureState\<close> and its constant
  \<^verbatim>\<open>rest.FeatureStateOn\<close> are not among the sources; the data model gives a flag the
  state on or off.
\<close>

datatype FeatureState = FeatureStateOn | FeatureStateOff

record FeatureConfig =
  Feature :: string
  Kind :: string
  State :: FeatureState
  Variations :: "Variation list"
  OffVariation :: string
  DefaultServe :: Serve
  Rules :: "ServingRule list option"
  VariationToTargetMap :: "VariationMap list option"
  Prerequisites :: "Prerequisite list option"

text \<open>The interface \<^verbatim>\<open>Query\<close>: the lookup provider.\<close>

record Query =
  GetSegment :: "string \<Rightarrow> error + Segment"
  GetFlag :: "string \<Rightarrow> error + FeatureConfig"

record PostEvalData =
  FeatureConfig :: FeatureConfig
  Target :: "Target option"
  Variation :: Variation

text \<open>
  The struct \<^verbatim>\<open>Evaluator\<close>, without its logger. The callback is an observer: it is
  handed the data and its result is ignored.
\<close>

record Evaluator =
  query :: "Query option"
  postEvalCallback :: "(PostEvalData \<Rightarrow> unit) option"

text \<open>
  Functions that the evaluator calls and that are not among the sources, taken as
  parameters: \<^verbatim>\<open>getAttrValue\<close> and \<^verbatim>\<open>evaluateDistribution\<close> of this package (the
  evaluator calls \<^verbatim>\<open>getAttrValue\<close> with a target that is not nil), and the library's
  \<^verbatim>\<open>regexp.MatchString\<close> and \<^verbatim>\<open>strings.EqualFold\<close>. Every theorem holds for all of
  them.
\<close>

record helpers =
  getAttrValue :: "Target \<Rightarrow> string \<Rightarrow> attr_value"
  evaluateDistribution :: "Distribution option \<Rightarrow> Target option \<Rightarrow> string"
  MatchString :: "string \<Rightarrow> string \<Rightarrow> error + bool"
  EqualFold :: "string \<Rightarrow> string \<Rightarrow> bool"

subsection \<open>Constants\<close>

definition segmentMatchOperator :: string where "segmentMatchOperator = ''segmentMatch''"
definition matchOperator :: string where "matchOperator = ''match''"
definition inOperator :: string where "inOperator = ''in''"
definition equalOperator :: string where "equalOperator = ''equal''"
definition gtOperator :: string where "gtOperator = ''gt''"
definition startsWithOperator :: string where "startsWithOperator = ''starts_with''"
definition endsWithOperator :: string where "endsWithOperator = ''ends_with''"
definition containsOperator :: string where "containsOperator = ''contains''"
definition equalSensitiveOperator :: string where "equalSensitiveOperator = ''equal_sensitive''"

lemmas operator_defs =
  segmentMatchOperator_def matchOperator_def inOperator_def equalOperator_def gtOperator_def
  startsWithOperator_def endsWithOperator_def containsOperator_def equalSensitiveOperator_def

subsection \<open>Library functions and helpers\<close>

text \<open>\<^verbatim>\<open>strconv.FormatInt(i, 10)\<close> and \<^verbatim>\<open>strconv.FormatBool\<close>.\<close>

definition digit_char :: "nat \<Rightarrow> char" where
  "digit_char d = ''0123456789'' ! d"

function nat_decimal :: "nat \<Rightarrow> string" where
  "nat_decimal n =
     (if n < 10 then [digit_char n] else nat_decimal (n div 10) @ [digit_char (n mod 10)])"
  by pat_completeness auto
termination
  by (relation "measure id") auto

definition FormatInt :: "int \<Rightarrow> string" where
  "FormatInt i = (if i < 0 then CHR ''-'' # nat_decimal (nat (- i)) else nat_decimal (nat i))"

definition FormatBool :: "bool \<Rightarrow> string" where
  "FormatBool b = (if b then ''true'' else ''false'')"

text \<open>
  \<^verbatim>\<open>strings.ToLower\<close> on the letters A to Z. \<^verbatim>\<open>BoolVariation\<close> compares the result with
  \<^verbatim>\<open>"true"\<close> only, and no letter outside ASCII has t, r, u or e as its lower case.
\<close>

definition lower_char :: "char \<Rightarrow> char" where
  "lower_char c =
     (if CHR ''A'' \<le> c \<and> c \<le> CHR ''Z'' then char_of (of_char c + (32::nat)) else c)"

definition ToLower :: "string \<Rightarrow> string" where
  "ToLower s = map lower_char s"

text \<open>
  Modelled from the spec: \<^verbatim>\<open>findVariation\<close> is not among the sources. It looks the
  identifier up in the flag's variation list and fails with VariationNotFound when it
  is absent.
\<close>

fun findVariation :: "Variation list \<Rightarrow> string \<Rightarrow> error + Variation" where
  "findVariation [] identifier = Inl (ErrVariationNotFound identifier)"
| "findVariation (v # vs) identifier =
     (if Variation.Identifier v = identifier then Inr v else findVariation vs identifier)"

text \<open>
  Modelled from the spec: \<^verbatim>\<open>isTargetInList\<close> is not among the sources. The target is
  in a list of targets when one of them has its identifier.
\<close>

definition isTargetInList :: "Target \<Rightarrow> rest_Target list \<Rightarrow> bool" where
  "isTargetInList target targets =
     list_ex (\<lambda>x. rest_Target.Identifier x = Target.Identifier target) targets"

text \<open>
  Modelled from the spec: \<^verbatim>\<open>contains\<close> is not among the sources. It tells whether
  an identifier is among the allowed variation identifiers of a prerequisite.
\<close>

definition contains :: "string list \<Rightarrow> string \<Rightarrow> bool" where
  "contains xs x = (x \<in> set xs)"

subsection \<open>Clauses and segments\<close>

text \<open>
  The switch on \<^verbatim>\<open>attrValue.Kind()\<close> of \<^verbatim>\<open>evaluateClause\<close>: the value of the local
  variable \<^verbatim>\<open>object\<close> after it. In the last two cases the source formats \<^verbatim>\<open>object\<close>
  itself, which is still the empty string there. \<open>Sprintf_v s\<close> is
  \<^verbatim>\<open>fmt.Sprintf("%v", s)\<close> for a string \<open>s\<close>: the string itself.
\<close>

definition Sprintf_v :: "string \<Rightarrow> string" where
  "Sprintf_v s = s"

fun object_of :: "attr_value \<Rightarrow> string" where
  "object_of (VInt i) = FormatInt i"
| "object_of (VBool b) = FormatBool b"
| "object_of (VString s) = s"
| "object_of VInvalid = Sprintf_v ''''"
| "object_of (VOther r) = Sprintf_v ''''"

definition IsValid :: "attr_value \<Rightarrow> bool" where
  "IsValid v = (v \<noteq> VInvalid)"

text \<open>
  \<^verbatim>\<open>evaluateClause\<close>, \<^verbatim>\<open>evaluateClauses\<close> and
  \<^verbatim>\<open>isTargetIncludedOrExcludedInSegment\<close> call each other: a clause with the operator
  segmentMatch asks the segment resolver, which evaluates the rule clauses of the
  segments it looks up. The fuel bounds the depth of nested segment resolutions. The
  three are reached with a target that is not nil only (\<^verbatim>\<open>evaluateRules\<close> and
  \<^verbatim>\<open>evaluateVariationMap\<close> return before the call otherwise) and from an evaluator
  whose query is not nil (\<^verbatim>\<open>NewEvaluator\<close>, \<^verbatim>\<open>evaluate\<close> and \<^verbatim>\<open>checkPreRequisite\<close>
  see to it), so they take the target and the query themselves.
\<close>

fun evaluateClause :: "nat \<Rightarrow> helpers \<Rightarrow> Query \<Rightarrow> Clause option \<Rightarrow> Target \<Rightarrow> bool option"
  and evaluateClauses :: "nat \<Rightarrow> helpers \<Rightarrow> Query \<Rightarrow> Clause list \<Rightarrow> Target \<Rightarrow> bool option"
  and isTargetIncludedOrExcludedInSegment ::
    "nat \<Rightarrow> helpers \<Rightarrow> Query \<Rightarrow> string list \<Rightarrow> Target \<Rightarrow> bool option"
where
  "evaluateClause n h q None target = Some False"
| "evaluateClause n h q (Some clause) target =
     (case Values clause of
        [] \<Rightarrow> Some False
      | val # _ \<Rightarrow>
          let operator = Op clause in
          if operator = '''' then Some False
          else
            let attrValue = getAttrValue h target (Attribute clause) in
            if operator \<noteq> segmentMatchOperator \<and> \<not> IsValid attrValue then Some False
            else
              let object = object_of attrValue in
              if operator = startsWithOperator then Some (prefix val object)
              else if operator = endsWithOperator then Some (suffix val object)
              else if operator = matchOperator then
                (case MatchString h val object of
                   Inl err \<Rightarrow> Some False
                 | Inr found \<Rightarrow> Some found)
              else if operator = containsOperator then Some (sublist val object)
              else if operator = equalOperator then Some (EqualFold h object val)
              else if operator = equalSensitiveOperator then Some (object = val)
              else if operator = inOperator then Some (list_ex (\<lambda>v. v = object) (Values clause))
              else if operator = gtOperator then Some (object > val)
              else if operator = segmentMatchOperator then
                isTargetIncludedOrExcludedInSegment n h q (Values clause) target
              else Some False)"
| "evaluateClauses n h q [] target = Some True"
| "evaluateClauses n h q (c # cs) target =
     (case evaluateClause n h q (Some c) target of
        None \<Rightarrow> None
      | Some False \<Rightarrow> Some False
      | Some True \<Rightarrow> evaluateClauses n h q cs target)"
| "isTargetIncludedOrExcludedInSegment 0 h q segmentList target = None"
| "isTargetIncludedOrExcludedInSegment (Suc n) h q [] target = Some False"
| "isTargetIncludedOrExcludedInSegment (Suc n) h q (segmentIdentifier # rest) target =
     (case GetSegment q segmentIdentifier of
        Inl err \<Rightarrow> Some False
      | Inr segment \<Rightarrow>
          if (case Excluded segment of None \<Rightarrow> False | Some ex \<Rightarrow> isTargetInList target ex)
          then Some False
          else if (case Included segment of None \<Rightarrow> False | Some inc \<Rightarrow> isTargetInList target inc)
          then Some True
          else
            (case Segment.Rules segment of
               None \<Rightarrow> isTargetIncludedOrExcludedInSegment (Suc n) h q rest target
             | Some rules \<Rightarrow>
                 (case evaluateClauses n h q rules target of
                    None \<Rightarrow> None
                  | Some True \<Rightarrow> Some True
                  | Some False \<Rightarrow> isTargetIncludedOrExcludedInSegment (Suc n) h q rest target)))"

definition evaluateRule :: "nat \<Rightarrow> helpers \<Rightarrow> Query \<Rightarrow> ServingRule \<Rightarrow> Target \<Rightarrow> bool option" where
  "evaluateRule n h q servingRule target = evaluateClauses n h q (Clauses servingRule) target"


subsection \<open>Rules and overrides\<close>

text \<open>
  \<^verbatim>\<open>sort.SliceStable\<close> by ascending priority is \<open>sort_key Priority\<close> (an insertion
  sort that keeps the order of equal keys). The sort permutes the slice that the caller
  handed in, so \<^verbatim>\<open>evaluateRules\<close> returns the content of the slice after the call
  beside its result. \<open>evaluateRules_loop\<close> is the loop over the sorted rules.
\<close>

fun evaluateRules_loop :: "nat \<Rightarrow> helpers \<Rightarrow> Query \<Rightarrow> ServingRule list \<Rightarrow> Target \<Rightarrow> string option" where
  "evaluateRules_loop n h q [] target = Some ''''"
| "evaluateRules_loop n h q (rule # rest) target =
     (case evaluateRule n h q rule target of
        None \<Rightarrow> None
      | Some False \<Rightarrow> evaluateRules_loop n h q rest target
      | Some True \<Rightarrow>
          (case Serve.Distribution (Serve rule) of
             Some d \<Rightarrow> Some (evaluateDistribution h (Some d) (Some target))
           | None \<Rightarrow>
               (case Serve.Variation (Serve rule) of
                  Some v \<Rightarrow> Some v
                | None \<Rightarrow> evaluateRules_loop n h q rest target)))"

definition evaluateRules ::
  "nat \<Rightarrow> helpers \<Rightarrow> Query \<Rightarrow> ServingRule list \<Rightarrow> Target option \<Rightarrow> (ServingRule list \<times> string) option"
where
  "evaluateRules n h q servingRules target =
     (case target of
        None \<Rightarrow> Some (servingRules, '''')
      | Some t \<Rightarrow>
          if servingRules = [] then Some (servingRules, '''')
          else
            let sorted = sort_key Priority servingRules in
            (case evaluateRules_loop n h q sorted t of
               None \<Rightarrow> None
             | Some variation \<Rightarrow> Some (sorted, variation)))"

fun evaluateVariationMap_loop ::
  "nat \<Rightarrow> helpers \<Rightarrow> Query \<Rightarrow> VariationMap list \<Rightarrow> Target \<Rightarrow> string option"
where
  "evaluateVariationMap_loop n h q [] target = Some ''''"
| "evaluateVariationMap_loop n h q (variationMap # rest) target =
     (if (case Targets variationMap of
            None \<Rightarrow> False
          | Some ts \<Rightarrow>
              list_ex (\<lambda>t. TargetMap.Identifier t \<noteq> '''' \<and>
                           TargetMap.Identifier t = Target.Identifier target) ts)
      then Some (VariationMap.Variation variationMap)
      else
        (case TargetSegments variationMap of
           None \<Rightarrow> evaluateVariationMap_loop n h q rest target
         | Some segmentIdentifiers \<Rightarrow>
             (case isTargetIncludedOrExcludedInSegment n h q segmentIdentifiers target of
                None \<Rightarrow> None
              | Some True \<Rightarrow> Some (VariationMap.Variation variationMap)
              | Some False \<Rightarrow> evaluateVariationMap_loop n h q rest target)))"

definition evaluateVariationMap ::
  "nat \<Rightarrow> helpers \<Rightarrow> Query \<Rightarrow> VariationMap list \<Rightarrow> Target option \<Rightarrow> string option"
where
  "evaluateVariationMap n h q variationsMap target =
     (case target of
        None \<Rightarrow> Some ''''
      | Some t \<Rightarrow>
          if variationsMap = [] then Some ''''
          else evaluateVariationMap_loop n h q variationsMap t)"

subsection \<open>Flags\<close>

text \<open>
  \<^verbatim>\<open>evaluateFlag\<close> in two steps. \<open>evaluateFlag_variation\<close> is the function up to the
  closing brace of \<^verbatim>\<open>if fc.State == rest.FeatureStateOn\<close>: it returns the flag as the
  call leaves it (the rule list sorted, if the rule resolver ran) and the value of the
  local variable \<^verbatim>\<open>variation\<close>. \<open>evaluateFlag\<close> then looks the identifier up.
\<close>

definition evaluateFlag_variation ::
  "nat \<Rightarrow> helpers \<Rightarrow> Query \<Rightarrow> FeatureConfig \<Rightarrow> Target option \<Rightarrow> (FeatureConfig \<times> string) option"
where
  "evaluateFlag_variation n h q fc target =
     (if State fc = FeatureStateOn then
        (case (case VariationToTargetMap fc of
                 None \<Rightarrow> Some ''''
               | Some m \<Rightarrow> evaluateVariationMap n h q m target) of
           None \<Rightarrow> None
         | Some variation1 \<Rightarrow>
             (case (if variation1 = '''' then
                      (case FeatureConfig.Rules fc of
                         None \<Rightarrow> Some (fc, variation1)
                       | Some rules \<Rightarrow>
                           (case evaluateRules n h q rules target of
                              None \<Rightarrow> None
                            | Some (rules', variation2) \<Rightarrow>
                                Some (fc\<lparr>FeatureConfig.Rules := Some rules'\<rparr>, variation2)))
                    else Some (fc, variation1)) of
                None \<Rightarrow> None
              | Some (fc', variation2) \<Rightarrow>
                  let variation3 =
                        (if variation2 = ''''
                         then evaluateDistribution h (Serve.Distribution (DefaultServe fc)) target
                         else variation2);
                      variation4 =
                        (if variation3 = '''' then
                           (case Serve.Variation (DefaultServe fc) of
                              None \<Rightarrow> variation3
                            | Some v \<Rightarrow> v)
                         else variation3)
                  in Some (fc', variation4)))
      else Some (fc, OffVariation fc))"

definition evaluateFlag ::
  "nat \<Rightarrow> helpers \<Rightarrow> Query \<Rightarrow> FeatureConfig \<Rightarrow> Target option
    \<Rightarrow> (FeatureConfig \<times> (error + Variation)) option"
where
  "evaluateFlag n h q fc target =
     (case evaluateFlag_variation n h q fc target of
        None \<Rightarrow> None
      | Some (fc', variation) \<Rightarrow>
          Some (fc',
            if variation \<noteq> '''' then findVariation (FeatureConfig.Variations fc) variation
            else Inl (ErrEvaluationFlag (FeatureConfig.Feature fc))))"

subsection \<open>Prerequisites\<close>

text \<open>
  \<^verbatim>\<open>checkPreRequisite\<close> and its loop over the prerequisites. The fuel bounds the depth
  of the prerequisite chain (and, inside \<open>evaluateFlag\<close>, of the segment resolution).
\<close>

fun checkPreRequisite ::
    "nat \<Rightarrow> helpers \<Rightarrow> Evaluator \<Rightarrow> FeatureConfig \<Rightarrow> Target option \<Rightarrow> (bool \<times> error option) option"
  and checkPreRequisite_loop ::
    "nat \<Rightarrow> helpers \<Rightarrow> Evaluator \<Rightarrow> Query \<Rightarrow> Prerequisite list \<Rightarrow> Target option
      \<Rightarrow> (bool \<times> error option) option"
where
  "checkPreRequisite 0 h e fc target = None"
| "checkPreRequisite (Suc n) h e fc target =
     (case query e of
        None \<Rightarrow> Some (True, Some ErrQueryProviderMissing)
      | Some q \<Rightarrow>
          (case Prerequisites fc of
             None \<Rightarrow> Some (True, None)
           | Some prerequisites \<Rightarrow> checkPreRequisite_loop n h e q prerequisites target))"
| "checkPreRequisite_loop n h e q [] target = Some (True, None)"
| "checkPreRequisite_loop n h e q (pre # rest) target =
     (case GetFlag q (Prerequisite.Feature pre) of
        Inl err \<Rightarrow> Some (True, None)
      | Inr prereqFeatureConfig \<Rightarrow>
          (case evaluateFlag n h q prereqFeatureConfig target of
             None \<Rightarrow> None
           | Some (prereqFeatureConfig', Inl err) \<Rightarrow> Some (True, None)
           | Some (prereqFeatureConfig', Inr prereqEvaluatedVariation) \<Rightarrow>
               if \<not> contains (Prerequisite.Variations pre)
                      (Variation.Identifier prereqEvaluatedVariation)
               then Some (False, None)
               else
                 (case checkPreRequisite n h e prereqFeatureConfig' target of
                    None \<Rightarrow> None
                  | Some (r, _) \<Rightarrow>
                      if \<not> r then Some (False, None)
                      else checkPreRequisite_loop n h e q rest target)))"

subsection \<open>The orchestrator and the typed accessors\<close>

definition evaluate ::
  "nat \<Rightarrow> helpers \<Rightarrow> Evaluator \<Rightarrow> string \<Rightarrow> Target option \<Rightarrow> string \<Rightarrow> (error + Variation) option"
where
  "evaluate n h e identifier target kind =
     (case query e of
        None \<Rightarrow> Some (Inl ErrQueryProviderMissing)
      | Some q \<Rightarrow>
          (case GetFlag q identifier of
             Inl err \<Rightarrow> Some (Inl err)
           | Inr flag \<Rightarrow>
               if Kind flag \<noteq> kind then Some (Inl (ErrFlagKindMismatch kind (Kind flag)))
               else
                 (case (case Prerequisites flag of
                          None \<Rightarrow> Some (True, None)
                        | Some _ \<Rightarrow> checkPreRequisite n h e flag target) of
                    None \<Rightarrow> None
                  | Some (prereq, err) \<Rightarrow>
                      if err \<noteq> None \<or> \<not> prereq
                      then Some (findVariation (FeatureConfig.Variations flag) (OffVariation flag))
                      else
                        (case evaluateFlag n h q flag target of
                           None \<Rightarrow> None
                         | Some (flag', Inl err) \<Rightarrow> Some (Inl err)
                         | Some (flag', Inr variation) \<Rightarrow>
                             (case postEvalCallback e of
                                None \<Rightarrow> Some (Inr variation)
                              | Some PostEvaluateProcessor \<Rightarrow>
                                  let _ = PostEvaluateProcessor
                                            \<lparr>PostEvalData.FeatureConfig = flag',
                                             PostEvalData.Target = target,
                                             PostEvalData.Variation = variation\<rparr>
                                  in Some (Inr variation))))))"

text \<open>
  The typed accessors. \<^verbatim>\<open>strconv.Atoi\<close>, \<^verbatim>\<open>strconv.ParseFloat\<close> and
  \<^verbatim>\<open>json.Unmarshal\<close> are parameters (the types of numbers and of decoded JSON
  objects with them).
\<close>

definition BoolVariation ::
  "nat \<Rightarrow> helpers \<Rightarrow> Evaluator \<Rightarrow> string \<Rightarrow> Target option \<Rightarrow> bool \<Rightarrow> bool option"
where
  "BoolVariation n h e identifier target defaultValue =
     (case evaluate n h e identifier target ''boolean'' of
        None \<Rightarrow> None
      | Some (Inl err) \<Rightarrow> Some defaultValue
      | Some (Inr variation) \<Rightarrow> Some (ToLower (Value variation) = ''true''))"

definition StringVariation ::
  "nat \<Rightarrow> helpers \<Rightarrow> Evaluator \<Rightarrow> string \<Rightarrow> Target option \<Rightarrow> string \<Rightarrow> string option"
where
  "StringVariation n h e identifier target defaultValue =
     (case evaluate n h e identifier target ''string'' of
        None \<Rightarrow> None
      | Some (Inl err) \<Rightarrow> Some defaultValue
      | Some (Inr variation) \<Rightarrow> Some (Value variation))"

definition IntVariation ::
  "(string \<Rightarrow> error + int) \<Rightarrow> nat \<Rightarrow> helpers \<Rightarrow> Evaluator \<Rightarrow> string \<Rightarrow> Target option \<Rightarrow> int
    \<Rightarrow> int option"
where
  "IntVariation Atoi n h e identifier target defaultValue =
     (case evaluate n h e identifier target ''int'' of
        None \<Rightarrow> None
      | Some (Inl err) \<Rightarrow> Some defaultValue
      | Some (Inr variation) \<Rightarrow>
          (case Atoi (Value variation) of
             Inl err \<Rightarrow> Some defaultValue
           | Inr val \<Rightarrow> Some val))"

definition NumberVariation ::
  "(string \<Rightarrow> error + 'f) \<Rightarrow> nat \<Rightarrow> helpers \<Rightarrow> Evaluator \<Rightarrow> string \<Rightarrow> Target option \<Rightarrow> 'f
    \<Rightarrow> 'f option"
where
  "NumberVariation ParseFloat n h e identifier target defaultValue =
     (case evaluate n h e identifier target ''int'' of
        None \<Rightarrow> None
      | Some (Inl err) \<Rightarrow> Some defaultValue
      | Some (Inr variation) \<Rightarrow>
          (case ParseFloat (Value variation) of
             Inl err \<Rightarrow> Some defaultValue
           | Inr val \<Rightarrow> Some val))"

definition JSONVariation ::
  "(string \<Rightarrow> error + 'j) \<Rightarrow> nat \<Rightarrow> helpers \<Rightarrow> Evaluator \<Rightarrow> string \<Rightarrow> Target option \<Rightarrow> 'j
    \<Rightarrow> 'j option"
where
  "JSONVariation Unmarshal n h e identifier target defaultValue =
     (case evaluate n h e identifier target ''json'' of
        None \<Rightarrow> None
      | Some (Inl err) \<Rightarrow> Some defaultValue
      | Some (Inr variation) \<Rightarrow>
          (case Unmarshal (Value variation) of
             Inl err \<Rightarrow> Some defaultValue
           | Inr val \<Rightarrow> Some val))"

section \<open>The resolution stages, in the words of the specification\<close>

text \<open>
  The four stages of the precedence chain of an on-state flag: the override resolver,
  the rule resolver, the default-serve distribution and the default-serve fixed
  variation (empty when a stage has nothing to consult), and the choice among their
  results: the first one that is not empty.
\<close>

definition overrideResolver ::
  "nat \<Rightarrow> helpers \<Rightarrow> Query \<Rightarrow> FeatureConfig \<Rightarrow> Target option \<Rightarrow> string option"
where
  "overrideResolver n h q fc target =
     (case VariationToTargetMap fc of
        None \<Rightarrow> Some ''''
      | Some m \<Rightarrow> evaluateVariationMap n h q m target)"

definition ruleResolver ::
  "nat \<Rightarrow> helpers \<Rightarrow> Query \<Rightarrow> FeatureConfig \<Rightarrow> Target option \<Rightarrow> string option"
where
  "ruleResolver n h q fc target =
     (case FeatureConfig.Rules fc of
        None \<Rightarrow> Some ''''
      | Some rules \<Rightarrow> map_option snd (evaluateRules n h q rules target))"

definition defaultServeDistribution :: "helpers \<Rightarrow> FeatureConfig \<Rightarrow> Target option \<Rightarrow> string" where
  "defaultServeDistribution h fc target =
     evaluateDistribution h (Serve.Distribution (DefaultServe fc)) target"

definition defaultServeVariation :: "FeatureConfig \<Rightarrow> string" where
  "defaultServeVariation fc =
     (case Serve.Variation (DefaultServe fc) of None \<Rightarrow> '''' | Some v \<Rightarrow> v)"

fun first_nonempty :: "string list \<Rightarrow> string" where
  "first_nonempty [] = ''''"
| "first_nonempty (x # xs) = (if x \<noteq> '''' then x else first_nonempty xs)"

text \<open>
  What one listed segment identifier does to the target: its segment excludes the
  target (the target is in its exclusion list), includes it (not excluded, and in the
  inclusion list or matched by all the rule clauses), or is passed over (found, with
  the target in neither list and not matched by the rule clauses, if there are any).
\<close>

definition segment_excludes :: "Query \<Rightarrow> Target \<Rightarrow> string \<Rightarrow> bool" where
  "segment_excludes q target segmentIdentifier =
     (case GetSegment q segmentIdentifier of
        Inl err \<Rightarrow> False
      | Inr segment \<Rightarrow>
          (case Excluded segment of None \<Rightarrow> False | Some ex \<Rightarrow> isTargetInList target ex))"

definition segment_includes :: "nat \<Rightarrow> helpers \<Rightarrow> Query \<Rightarrow> Target \<Rightarrow> string \<Rightarrow> bool" where
  "segment_includes n h q target segmentIdentifier =
     (case GetSegment q segmentIdentifier of
        Inl err \<Rightarrow> False
      | Inr segment \<Rightarrow>
          \<not> (case Excluded segment of None \<Rightarrow> False | Some ex \<Rightarrow> isTargetInList target ex) \<and>
          ((case Included segment of None \<Rightarrow> False | Some inc \<Rightarrow> isTargetInList target inc) \<or>
           (case Segment.Rules segment of
              None \<Rightarrow> False
            | Some rules \<Rightarrow> evaluateClauses n h q rules target = Some True)))"

definition segment_passes :: "nat \<Rightarrow> helpers \<Rightarrow> Query \<Rightarrow> Target \<Rightarrow> string \<Rightarrow> bool" where
  "segment_passes n h q target segmentIdentifier =
     (case GetSegment q segmentIdentifier of
        Inl err \<Rightarrow> False
      | Inr segment \<Rightarrow>
          \<not> (case Excluded segment of None \<Rightarrow> False | Some ex \<Rightarrow> isTargetInList target ex) \<and>
          \<not> (case Included segment of None \<Rightarrow> False | Some inc \<Rightarrow> isTargetInList target inc) \<and>
          (case Segment.Rules segment of
             None \<Rightarrow> True
           | Some rules \<Rightarrow> evaluateClauses n h q rules target = Some False))"

text \<open>
  What a serving rule serves once its clauses have matched: the bucket of its
  distribution if it has one, else its fixed variation. In the data model every rule
  serves one or the other.
\<close>

definition rule_outcome :: "helpers \<Rightarrow> Target \<Rightarrow> ServingRule \<Rightarrow> string" where
  "rule_outcome h target rule =
     (case Serve.Distribution (Serve rule) of
        Some d \<Rightarrow> evaluateDistribution h (Some d) (Some target)
      | None \<Rightarrow> (case Serve.Variation (Serve rule) of Some v \<Rightarrow> v | None \<Rightarrow> ''''))"

definition serves_something :: "ServingRule \<Rightarrow> bool" where
  "serves_something rule =
     (Serve.Distribution (Serve rule) \<noteq> None \<or> Serve.Variation (Serve rule) \<noteq> None)"

text \<open>
  One prerequisite of a flag. It can be checked when the lookup of its flag succeeds,
  \<^verbatim>\<open>evaluateFlag\<close> serves a variation of that flag and, if the variation is an allowed
  one, the check of that flag's own prerequisites returns. It holds when the variation
  that \<^verbatim>\<open>evaluateFlag\<close> serves is among the allowed ones and the check of that flag's
  own prerequisites passes.
\<close>

definition prerequisite_checkable ::
  "nat \<Rightarrow> helpers \<Rightarrow> Evaluator \<Rightarrow> Query \<Rightarrow> Target option \<Rightarrow> Prerequisite \<Rightarrow> bool"
where
  "prerequisite_checkable n h e q target pre =
     (case GetFlag q (Prerequisite.Feature pre) of
        Inl err \<Rightarrow> False
      | Inr prereqFeatureConfig \<Rightarrow>
          (case evaluateFlag n h q prereqFeatureConfig target of
             Some (prereqFeatureConfig', Inr v) \<Rightarrow>
               contains (Prerequisite.Variations pre) (Variation.Identifier v) \<longrightarrow>
               checkPreRequisite n h e prereqFeatureConfig' target \<noteq> None
           | _ \<Rightarrow> False))"

definition prerequisite_holds ::
  "nat \<Rightarrow> helpers \<Rightarrow> Evaluator \<Rightarrow> Query \<Rightarrow> Target option \<Rightarrow> Prerequisite \<Rightarrow> bool"
where
  "prerequisite_holds n h e q target pre =
     (case GetFlag q (Prerequisite.Feature pre) of
        Inl err \<Rightarrow> False
      | Inr prereqFeatureConfig \<Rightarrow>
          (case evaluateFlag n h q prereqFeatureConfig target of
             Some (prereqFeatureConfig', Inr v) \<Rightarrow>
               contains (Prerequisite.Variations pre) (Variation.Identifier v) \<and>
               (case checkPreRequisite n h e prereqFeatureConfig' target of
                  Some (r, _) \<Rightarrow> r
                | None \<Rightarrow> False)
           | _ \<Rightarrow> False))"

text \<open>
  A rule that decides the rule resolver's result: its clauses all match and it serves
  a distribution or a variation.
\<close>

definition served_match :: "nat \<Rightarrow> helpers \<Rightarrow> Query \<Rightarrow> Target \<Rightarrow> ServingRule \<Rightarrow> bool" where
  "served_match n h q target rule =
     (evaluateRule n h q rule target = Some True \<and> serves_something rule)"

text \<open>
  The chain of prerequisites below a list of prerequisites, depth first, to the depth
  \<open>n\<close>. The chain is satisfied when every prerequisite of the list has a flag that is
  found and that \<^verbatim>\<open>evaluateFlag\<close> serves a variation of, this variation is among the
  allowed ones of the prerequisite, and the chain below the prerequisites of that flag
  is satisfied in its turn; a chain deeper than \<open>n\<close> does not count as satisfied.
\<close>

definition own_prerequisites :: "FeatureConfig \<Rightarrow> Prerequisite list" where
  "own_prerequisites fc = (case Prerequisites fc of None \<Rightarrow> [] | Some prerequisites \<Rightarrow> prerequisites)"

fun chain_satisfied ::
  "nat \<Rightarrow> helpers \<Rightarrow> Query \<Rightarrow> Target option \<Rightarrow> Prerequisite list \<Rightarrow> bool"
where
  "chain_satisfied n h q target [] = True"
| "chain_satisfied 0 h q target (pre # rest) = False"
| "chain_satisfied (Suc m) h q target (pre # rest) =
     (case GetFlag q (Prerequisite.Feature pre) of
        Inl err \<Rightarrow> False
      | Inr flag \<Rightarrow>
          (case evaluateFlag (Suc m) h q flag target of
             Some (_, Inr v) \<Rightarrow>
               contains (Prerequisite.Variations pre) (Variation.Identifier v) \<and>
               chain_satisfied m h q target (own_prerequisites flag) \<and>
               chain_satisfied (Suc m) h q target rest
           | _ \<Rightarrow> False))"

text \<open>
  The chain can be checked to the depth \<open>n\<close> when every prerequisite that the
  depth-first walk reaches before the first one that is not satisfied has a flag that
  is found and that \<^verbatim>\<open>evaluateFlag\<close> serves a variation of (no lookup failure, no
  evaluation error, and the evaluation returns), and the walk stays within the depth.
\<close>

fun chain_checkable ::
  "nat \<Rightarrow> helpers \<Rightarrow> Query \<Rightarrow> Target option \<Rightarrow> Prerequisite list \<Rightarrow> bool"
where
  "chain_checkable n h q target [] = True"
| "chain_checkable 0 h q target (pre # rest) =
     (case GetFlag q (Prerequisite.Feature pre) of
        Inl err \<Rightarrow> False
      | Inr flag \<Rightarrow>
          (case evaluateFlag 0 h q flag target of
             Some (_, Inr v) \<Rightarrow>
               \<not> contains (Prerequisite.Variations pre) (Variation.Identifier v)
           | _ \<Rightarrow> False))"
| "chain_checkable (Suc m) h q target (pre # rest) =
     (case GetFlag q (Prerequisite.Feature pre) of
        Inl err \<Rightarrow> False
      | Inr flag \<Rightarrow>
          (case evaluateFlag (Suc m) h q flag target of
             Some (_, Inr v) \<Rightarrow>
               contains (Prerequisite.Variations pre) (Variation.Identifier v) \<longrightarrow>
                 chain_checkable m h q target (own_prerequisites flag) \<and>
                 (chain_satisfied m h q target (own_prerequisites flag) \<longrightarrow>
                    chain_checkable (Suc m) h q target rest)
           | _ \<Rightarrow> False))"

section \<open>Test data\<close>

text \<open>
  Stand-ins for the parameters and a small world of flags and segments, on which the
  theorems below are run at concrete inputs.
\<close>

definition test_helpers :: helpers where
  "test_helpers =
     \<lparr>getAttrValue = (\<lambda>t a.
        if a = ''identifier'' then VString (Target.Identifier t)
        else (case Attributes t of
                None \<Rightarrow> VInvalid
              | Some m \<Rightarrow> (case m a of None \<Rightarrow> VInvalid | Some v \<Rightarrow> v))),
      evaluateDistribution = (\<lambda>d t.
        case d of
          None \<Rightarrow> ''''
        | Some dist \<Rightarrow>
            (case Distribution.Variations dist of
               [] \<Rightarrow> ''''
             | wv # _ \<Rightarrow> WeightedVariation.Variation wv)),
      MatchString = (\<lambda>p s. Inl (ErrExternal ''regexp'')),
      EqualFold = (\<lambda>a b. ToLower a = ToLower b)\<rparr>"

definition test_target :: Target where
  "test_target =
     \<lparr>Target.Identifier = ''u1'', Name = ''User 1'', Anonymous = None,
      Attributes = Some [''score'' \<mapsto> VOther ''1.5'', ''age'' \<mapsto> VInt 42]\<rparr>"

definition v_on :: Variation where "v_on = \<lparr>Variation.Identifier = ''on'', Value = ''true''\<rparr>"
definition v_off :: Variation where "v_off = \<lparr>Variation.Identifier = ''off'', Value = ''false''\<rparr>"

definition serve_variation :: "string \<Rightarrow> Serve" where
  "serve_variation v = \<lparr>Serve.Distribution = None, Variation = Some v\<rparr>"

definition flag_base :: "string \<Rightarrow> string \<Rightarrow> FeatureConfig" where
  "flag_base name served =
     \<lparr>FeatureConfig.Feature = name, Kind = ''boolean'', State = FeatureStateOn,
      Variations = [v_on, v_off], OffVariation = ''off'',
      DefaultServe = serve_variation served, Rules = None, VariationToTargetMap = None,
      Prerequisites = None\<rparr>"

definition flag_plain_off :: FeatureConfig where
  "flag_plain_off =
     (flag_base ''plain_off'' ''on'')
       \<lparr>State := FeatureStateOff,
        FeatureConfig.Rules := Some [\<lparr>Priority = 1, Clauses = [], Serve = serve_variation ''on''\<rparr>],
        VariationToTargetMap := Some [\<lparr>Targets = Some [\<lparr>TargetMap.Identifier = ''u1'', Name = ''User 1''\<rparr>],
           TargetSegments = None, Variation = ''on''\<rparr>]\<rparr>"

definition flag_gated :: FeatureConfig where
  "flag_gated =
     (flag_base ''gated'' ''on'')
       \<lparr>Prerequisites := Some [\<lparr>Prerequisite.Feature = ''serves_off'', Variations = [''on'']\<rparr>]\<rparr>"

definition flag_top :: FeatureConfig where
  "flag_top =
     (flag_base ''top'' ''on'')
       \<lparr>Prerequisites := Some [\<lparr>Prerequisite.Feature = ''gated'', Variations = [''off'']\<rparr>]\<rparr>"

definition flag_needs_on :: FeatureConfig where
  "flag_needs_on =
     (flag_base ''needs_on'' ''on'')
       \<lparr>Prerequisites := Some [\<lparr>Prerequisite.Feature = ''serves_on'', Variations = [''on'']\<rparr>]\<rparr>"

definition flag_orphan :: FeatureConfig where
  "flag_orphan =
     (flag_base ''orphan'' ''on'')
       \<lparr>Prerequisites := Some
          [\<lparr>Prerequisite.Feature = ''serves_on'', Variations = [''on'']\<rparr>,
           \<lparr>Prerequisite.Feature = ''unknown'', Variations = [''on'']\<rparr>,
           \<lparr>Prerequisite.Feature = ''serves_off'', Variations = [''on'']\<rparr>]\<rparr>"

definition v_unnamed :: Variation where
  "v_unnamed = \<lparr>Variation.Identifier = '''', Value = ''true''\<rparr>"

definition flag_off_empty :: FeatureConfig where
  "flag_off_empty =
     (flag_base ''off_empty'' ''on'')
       \<lparr>State := FeatureStateOff, FeatureConfig.Variations := [v_unnamed, v_on, v_off],
        OffVariation := ''''\<rparr>"

definition flag_off_empty_gated :: FeatureConfig where
  "flag_off_empty_gated =
     flag_off_empty
       \<lparr>FeatureConfig.Feature := ''off_empty_gated'',
        Prerequisites := Some [\<lparr>Prerequisite.Feature = ''serves_off'', Variations = [''on'']\<rparr>]\<rparr>"

definition flag_deep :: FeatureConfig where
  "flag_deep =
     (flag_base ''deep'' ''on'')
       \<lparr>Prerequisites := Some [\<lparr>Prerequisite.Feature = ''needs_on'', Variations = [''on'']\<rparr>]\<rparr>"

definition flag_deep_unsatisfied :: FeatureConfig where
  "flag_deep_unsatisfied = (flag_base ''deep_unsatisfied'' ''on'')
     \<lparr>Prerequisites := Some [\<lparr>Prerequisite.Feature = ''gated'', Variations = [''on'']\<rparr>]\<rparr>"

definition rest_u1 :: rest_Target where
  "rest_u1 = \<lparr>rest_Target.Identifier = ''u1'', Name = ''User 1''\<rparr>"

definition segment_beta :: Segment where
  "segment_beta =
     \<lparr>Segment.Identifier = ''beta'', Name = ''Beta users'', Excluded = None,
      Included = Some [rest_u1], Rules = None\<rparr>"

definition segment_banned :: Segment where
  "segment_banned =
     \<lparr>Segment.Identifier = ''banned'', Name = ''Banned users'', Excluded = Some [rest_u1],
      Included = Some [rest_u1], Rules = None\<rparr>"

definition segment_adults :: Segment where
  "segment_adults =
     \<lparr>Segment.Identifier = ''adults'', Name = ''Adults'', Excluded = None, Included = None,
      Rules = Some [\<lparr>Attribute = ''age'', Op = equalSensitiveOperator, Values = [''42'']\<rparr>]\<rparr>"

definition segment_nobody :: Segment where
  "segment_nobody =
     \<lparr>Segment.Identifier = ''nobody'', Name = ''Nobody'', Excluded = None, Included = Some [],
      Rules = None\<rparr>"

definition test_query :: Query where
  "test_query =
     \<lparr>GetSegment = (\<lambda>s.
        if s = ''beta'' then Inr segment_beta
        else if s = ''banned'' then Inr segment_banned
        else if s = ''adults'' then Inr segment_adults
        else if s = ''nobody'' then Inr segment_nobody
        else Inl (ErrExternal s)),
      GetFlag = (\<lambda>s.
        if s = ''plain_off'' then Inr flag_plain_off
        else if s = ''gated'' then Inr flag_gated
        else if s = ''serves_off'' then Inr (flag_base ''serves_off'' ''off'')
        else if s = ''serves_on'' then Inr (flag_base ''serves_on'' ''on'')
        else if s = ''top'' then Inr flag_top
        else if s = ''needs_on'' then Inr flag_needs_on
        else if s = ''orphan'' then Inr flag_orphan
        else if s = ''off_empty'' then Inr flag_off_empty
        else if s = ''off_empty_gated'' then Inr flag_off_empty_gated
        else if s = ''deep'' then Inr flag_deep
        else Inl (ErrExternal s))\<rparr>"

definition test_evaluator :: Evaluator where
  "test_evaluator = \<lparr>query = Some test_query, postEvalCallback = None\<rparr>"

lemmas segment_defs = rest_u1_def segment_beta_def segment_banned_def segment_adults_def
  segment_nobody_def

lemmas test_defs = test_helpers_def test_target_def v_on_def v_off_def serve_variation_def
  flag_base_def flag_plain_off_def flag_gated_def flag_top_def flag_needs_on_def flag_orphan_def
  v_unnamed_def flag_off_empty_def flag_off_empty_gated_def flag_deep_def flag_deep_unsatisfied_def
  test_query_def test_evaluator_def

definition flag_override :: FeatureConfig where
  "flag_override =
     \<lparr>FeatureConfig.Feature = ''banner'', Kind = ''string'', State = FeatureStateOn,
      Variations = [\<lparr>Variation.Identifier = ''A'', Value = ''alpha''\<rparr>,
                    \<lparr>Variation.Identifier = ''B'', Value = ''beta''\<rparr>],
      OffVariation = ''B'',
      DefaultServe = serve_variation ''B'', Rules = None,
      VariationToTargetMap = Some [\<lparr>Targets = Some [\<lparr>TargetMap.Identifier = ''u1'', Name = ''User 1''\<rparr>],
           TargetSegments = None, Variation = ''A''\<rparr>],
      Prerequisites = None\<rparr>"

definition other_target :: Target where
  "other_target =
     \<lparr>Target.Identifier = ''u2'', Name = ''User 2'', Anonymous = None, Attributes = None\<rparr>"

definition flag_int :: FeatureConfig where
  "flag_int =
     (flag_base ''limit'' ''big'')
       \<lparr>Kind := ''int'',
        FeatureConfig.Variations :=
          [\<lparr>Variation.Identifier = ''big'', Value = ''not_a_number''\<rparr>,
           \<lparr>Variation.Identifier = ''small'', Value = ''42''\<rparr>]\<rparr>"

definition test_Atoi :: "string \<Rightarrow> error + int" where
  "test_Atoi s = (if s = ''42'' then Inr 42 else Inl (ErrExternal s))"

definition test_query2 :: Query where
  "test_query2 =
     \<lparr>GetSegment = (\<lambda>s. Inl (ErrExternal s)),
      GetFlag = (\<lambda>s.
        if s = ''limit'' then Inr flag_int
        else if s = ''dangling'' then Inr (flag_base ''dangling'' ''purple'')
        else if s = ''serves_on'' then Inr (flag_base ''serves_on'' ''on'')
        else Inl (ErrExternal s))\<rparr>"

definition test_evaluator2 :: Evaluator where
  "test_evaluator2 = \<lparr>query = Some test_query2, postEvalCallback = None\<rparr>"

definition clause_identifier_is :: "string \<Rightarrow> Clause" where
  "clause_identifier_is v =
     \<lparr>Attribute = ''identifier'', Op = equalSensitiveOperator, Values = [v]\<rparr>"

definition rule_p3 :: ServingRule where
  "rule_p3 =
     \<lparr>Priority = 3, Clauses = [clause_identifier_is ''u9''], Serve = serve_variation ''C''\<rparr>"

definition rule_p1 :: ServingRule where
  "rule_p1 =
     \<lparr>Priority = 1, Clauses = [clause_identifier_is ''u1''], Serve = serve_variation ''A''\<rparr>"

definition rule_p2 :: ServingRule where
  "rule_p2 = \<lparr>Priority = 2, Clauses = [], Serve = serve_variation ''B''\<rparr>"

lemmas rule_defs = clause_identifier_is_def rule_p3_def rule_p1_def rule_p2_def

definition rule_none :: ServingRule where
  "rule_none =
     \<lparr>Priority = 1, Clauses = [], Serve = \<lparr>Distribution = None, Variation = None\<rparr>\<rparr>"







section \<open>Properties\<close>


subsection \<open>What an evaluation leaves of the flag\<close>

text \<open>
  \<^verbatim>\<open>evaluateRules\<close> leaves the rule list as it was or sorted by priority, and
  \<^verbatim>\<open>evaluateFlag\<close> leaves the flag as it was but for its rule list.
\<close>

lemma evaluateRules_frame:
  "evaluateRules n h q servingRules target = Some (rules', variation) \<Longrightarrow>
   rules' = servingRules \<or> rules' = sort_key Priority servingRules"
  by (auto simp add: evaluateRules_def Let_def split: option.splits if_splits)

lemma Rules_update_same:
  "FeatureConfig.Rules fc = Some rules \<Longrightarrow> fc\<lparr>FeatureConfig.Rules := Some rules\<rparr> = fc"
  by (cases fc) simp

lemma evaluateFlag_variation_frame:
  assumes "evaluateFlag_variation n h q fc target = Some (fc', variation)"
  shows "fc' = fc \<or>
    (\<exists>rules. FeatureConfig.Rules fc = Some rules \<and>
       fc' = fc\<lparr>FeatureConfig.Rules := Some (sort_key Priority rules)\<rparr>)"
  using assms
  by (auto simp add: evaluateFlag_variation_def Let_def Rules_update_same
      split: option.splits if_splits prod.splits dest!: evaluateRules_frame)

lemma evaluateFlag_Prerequisites:
  assumes "evaluateFlag n h q fc target = Some (fc', result)"
  shows "Prerequisites fc' = Prerequisites fc"
proof -
  from assms obtain variation where
    "evaluateFlag_variation n h q fc target = Some (fc', variation)"
    by (auto simp add: evaluateFlag_def split: option.splits)
  then have "fc' = fc \<or>
    (\<exists>rules. FeatureConfig.Rules fc = Some rules \<and>
       fc' = fc\<lparr>FeatureConfig.Rules := Some (sort_key Priority rules)\<rparr>)"
    by (rule evaluateFlag_variation_frame)
  then show ?thesis
    by auto
qed

subsection \<open>The precedence chain of an on-state flag\<close>

text \<open>
  C1. For a flag whose state is on, the identifier that \<^verbatim>\<open>evaluateFlag\<close> resolves is
  the first non-empty result of the override resolver, the rule resolver, the
  default-serve distribution and the default-serve fixed variation, in this order (the
  rule resolver is asked only when the override resolver gave nothing), and
  \<^verbatim>\<open>evaluateFlag\<close> serves the variation of that identifier; so does \<^verbatim>\<open>evaluate\<close> for
  a flag of the expected kind whose prerequisites, if any, are satisfied.
\<close>

theorem evaluateFlag_on_precedence:
  assumes "State fc = FeatureStateOn"
    and "overrideResolver n h q fc target = Some a"
    and "a = '''' \<Longrightarrow> ruleResolver n h q fc target = Some b"
  shows "map_option snd (evaluateFlag_variation n h q fc target) =
           Some (first_nonempty
             [a, b, defaultServeDistribution h fc target, defaultServeVariation fc])
       \<and> map_option snd (evaluateFlag n h q fc target) =
           Some (let served = first_nonempty
                   [a, b, defaultServeDistribution h fc target, defaultServeVariation fc]
                 in if served \<noteq> '''' then findVariation (FeatureConfig.Variations fc) served
                    else Inl (ErrEvaluationFlag (FeatureConfig.Feature fc)))
       \<and> (query e = Some q \<and> GetFlag q ident = Inr fc \<and> Kind fc = kind \<and>
            (Prerequisites fc = None \<or> checkPreRequisite n h e fc target = Some (True, None)) \<longrightarrow>
           evaluate n h e ident target kind =
             Some (let served = first_nonempty
                     [a, b, defaultServeDistribution h fc target, defaultServeVariation fc]
                   in if served \<noteq> '''' then findVariation (FeatureConfig.Variations fc) served
                      else Inl (ErrEvaluationFlag (FeatureConfig.Feature fc))))"
proof -
  let ?served = "first_nonempty
    [a, b, defaultServeDistribution h fc target, defaultServeVariation fc]"
  have var: "\<exists>fc'. evaluateFlag_variation n h q fc target = Some (fc', ?served)"
  proof (cases "a = ''''")
    case True
    with assms(3) have "ruleResolver n h q fc target = Some b" by simp
    with assms(1,2) True show ?thesis
      by (auto simp add: evaluateFlag_variation_def overrideResolver_def ruleResolver_def
          defaultServeDistribution_def defaultServeVariation_def Let_def
          split: option.splits)
  next
    case False
    with assms(1,2) show ?thesis
      by (auto simp add: evaluateFlag_variation_def overrideResolver_def
          split: option.splits)
  qed
  then obtain fc' where v: "evaluateFlag_variation n h q fc target = Some (fc', ?served)" ..
  have flag: "evaluateFlag n h q fc target =
      Some (fc', if ?served \<noteq> '''' then findVariation (FeatureConfig.Variations fc) ?served
                 else Inl (ErrEvaluationFlag (FeatureConfig.Feature fc)))"
    using v by (simp add: evaluateFlag_def)
  have top: "evaluate n h e ident target kind =
      Some (if ?served \<noteq> '''' then findVariation (FeatureConfig.Variations fc) ?served
            else Inl (ErrEvaluationFlag (FeatureConfig.Feature fc)))"
    if "query e = Some q \<and> GetFlag q ident = Inr fc \<and> Kind fc = kind \<and>
        (Prerequisites fc = None \<or> checkPreRequisite n h e fc target = Some (True, None))"
  proof -
    from that have pre: "(case Prerequisites fc of None \<Rightarrow> Some (True, None)
        | Some _ \<Rightarrow> checkPreRequisite n h e fc target) = Some (True, None)"
      by (auto split: option.splits)
    show ?thesis
      using that pre flag
      by (simp add: evaluate_def split: sum.splits option.splits)
  qed
  show ?thesis
    using v flag top by (simp add: Let_def)
qed

theorem evaluateFlag_on_precedence_witness:
  "map_option snd (evaluateFlag 1 test_helpers test_query flag_override (Some test_target))
     = Some (Inr \<lparr>Variation.Identifier = ''A'', Value = ''alpha''\<rparr>)
 \<and> map_option snd (evaluateFlag 1 test_helpers test_query flag_override (Some other_target))
     = Some (Inr \<lparr>Variation.Identifier = ''B'', Value = ''beta''\<rparr>)"
proof -
  have on: "State flag_override = FeatureStateOn"
    by (simp add: flag_override_def)
  have o1: "overrideResolver 1 test_helpers test_query flag_override (Some test_target) = Some ''A''"
    by (simp add: overrideResolver_def evaluateVariationMap_def flag_override_def test_target_def)
  have o2: "overrideResolver 1 test_helpers test_query flag_override (Some other_target) = Some ''''"
    by (simp add: overrideResolver_def evaluateVariationMap_def flag_override_def other_target_def)
  have r2: "ruleResolver 1 test_helpers test_query flag_override (Some other_target) = Some ''''"
    by (simp add: ruleResolver_def flag_override_def)
  have r1: "''A'' = '''' \<Longrightarrow>
      ruleResolver 1 test_helpers test_query flag_override (Some test_target) = Some ''''"
    by simp
  show ?thesis
    using evaluateFlag_on_precedence [OF on o1 r1, THEN conjunct2, THEN conjunct1]
      evaluateFlag_on_precedence [OF on o2 r2, THEN conjunct2, THEN conjunct1]
    by (simp add: defaultServeDistribution_def defaultServeVariation_def flag_override_def
        test_helpers_def serve_variation_def)
qed

subsection \<open>State off and failed prerequisites serve the off variation\<close>

text \<open>
  C2, as the claim states it, fails for an off variation whose identifier is empty.
  The flags \<^verbatim>\<open>off_empty\<close> and \<^verbatim>\<open>off_empty_gated\<close> are both off, with the same
  variations and the same (empty) off-variation identifier, which names one of their
  variations; the second has a prerequisite that is not satisfied. The second is
  served that variation, the first is an evaluation error: \<^verbatim>\<open>evaluateFlag\<close> treats
  the empty identifier as nothing resolved.
\<close>

theorem state_off_empty_off_variation_is_an_error:
  "State flag_off_empty = FeatureStateOff \<and>
   State flag_off_empty_gated = FeatureStateOff \<and>
   OffVariation flag_off_empty = '''' \<and>
   OffVariation flag_off_empty_gated = '''' \<and>
   findVariation (FeatureConfig.Variations flag_off_empty) (OffVariation flag_off_empty)
     = Inr v_unnamed \<and>
   evaluate 3 test_helpers test_evaluator ''off_empty'' (Some test_target) ''boolean''
     = Some (Inl (ErrEvaluationFlag ''off_empty'')) \<and>
   evaluate 3 test_helpers test_evaluator ''off_empty_gated'' (Some test_target) ''boolean''
     = Some (Inr v_unnamed)"
  by (simp add: test_defs evaluate_def evaluateFlag_def evaluateFlag_variation_def
      contains_def numeral_3_eq_3)

text \<open>
  C2, amended. For a flag whose state is off, the identifier that \<^verbatim>\<open>evaluateFlag\<close>
  resolves is the flag's off variation, whatever its rules and overrides hold and for
  every fuel. If that identifier is not empty, \<^verbatim>\<open>evaluate\<close> returns the variation of
  that identifier (or the error of its lookup) whatever the prerequisites are and
  whatever their check says; it returns exactly when the prerequisite check does, and
  always when the flag has no prerequisites. Prerequisites are checked first, for a
  flag of any state: when the check does not pass (or reports an error),
  \<^verbatim>\<open>evaluate\<close> returns the variation of the off variation's identifier at once.
\<close>

theorem evaluate_off_variation:
  assumes "query e = Some q" and "GetFlag q ident = Inr flag" and "Kind flag = kind"
  shows "(State flag = FeatureStateOff \<longrightarrow>
            evaluateFlag_variation n h q flag target = Some (flag, OffVariation flag))
       \<and> (State flag = FeatureStateOff \<and> OffVariation flag \<noteq> '''' \<longrightarrow>
            evaluate n h e ident target kind =
              (if Prerequisites flag \<noteq> None \<and> checkPreRequisite n h e flag target = None
               then None
               else Some (findVariation (FeatureConfig.Variations flag) (OffVariation flag))))
       \<and> (Prerequisites flag \<noteq> None \<and> checkPreRequisite n h e flag target = Some (prereq, err) \<and>
            (err \<noteq> None \<or> \<not> prereq) \<longrightarrow>
            evaluate n h e ident target kind =
              Some (findVariation (FeatureConfig.Variations flag) (OffVariation flag)))"
proof (intro conjI impI)
  assume off: "State flag = FeatureStateOff"
  then show "evaluateFlag_variation n h q flag target = Some (flag, OffVariation flag)"
    by (simp add: evaluateFlag_variation_def)
next
  assume a: "State flag = FeatureStateOff \<and> OffVariation flag \<noteq> ''''"
  then have served: "evaluateFlag n h q flag target =
      Some (flag, findVariation (FeatureConfig.Variations flag) (OffVariation flag))"
    by (simp add: evaluateFlag_def evaluateFlag_variation_def)
  show "evaluate n h e ident target kind =
      (if Prerequisites flag \<noteq> None \<and> checkPreRequisite n h e flag target = None
       then None
       else Some (findVariation (FeatureConfig.Variations flag) (OffVariation flag)))"
  proof (cases "Prerequisites flag")
    case None
    with assms served show ?thesis
      by (simp add: evaluate_def Let_def split: sum.splits option.splits)
  next
    case (Some prerequisites)
    show ?thesis
    proof (cases "checkPreRequisite n h e flag target")
      case None
      with assms Some show ?thesis
        by (simp add: evaluate_def)
    next
      case (Some result)
      with assms \<open>Prerequisites flag = Some prerequisites\<close> served show ?thesis
        by (cases result)
          (auto simp add: evaluate_def Let_def split: sum.splits option.splits)
    qed
  qed
next
  assume a: "Prerequisites flag \<noteq> None \<and> checkPreRequisite n h e flag target = Some (prereq, err) \<and>
            (err \<noteq> None \<or> \<not> prereq)"
  then have pre: "(case Prerequisites flag of None \<Rightarrow> Some (True, None)
      | Some _ \<Rightarrow> checkPreRequisite n h e flag target) = Some (prereq, err)"
    by (auto split: option.splits)
  show "evaluate n h e ident target kind =
      Some (findVariation (FeatureConfig.Variations flag) (OffVariation flag))"
    using assms pre a by (auto simp add: evaluate_def Let_def)
qed

theorem evaluate_off_variation_witness:
  "evaluate 3 test_helpers test_evaluator ''plain_off'' (Some test_target) ''boolean''
     = Some (Inr v_off)
   \<and> evaluate 3 test_helpers test_evaluator ''gated'' (Some test_target) ''boolean''
     = Some (Inr v_off)"
proof -
  have q: "query test_evaluator = Some test_query"
    by (simp add: test_evaluator_def)
  have f1: "GetFlag test_query ''plain_off'' = Inr flag_plain_off"
    by (simp add: test_query_def)
  have f2: "GetFlag test_query ''gated'' = Inr flag_gated"
    by (simp add: test_query_def)
  have k1: "Kind flag_plain_off = ''boolean''"
    by (simp add: flag_plain_off_def flag_base_def)
  have k2: "Kind flag_gated = ''boolean''"
    by (simp add: flag_gated_def flag_base_def)
  have off: "State flag_plain_off = FeatureStateOff \<and> OffVariation flag_plain_off \<noteq> ''''"
    by (simp add: flag_plain_off_def flag_base_def)
  have none: "Prerequisites flag_plain_off = None"
    by (simp add: flag_plain_off_def flag_base_def)
  have served: "findVariation (FeatureConfig.Variations flag_plain_off)
      (OffVariation flag_plain_off) = Inr v_off"
    and served': "findVariation (FeatureConfig.Variations flag_gated)
      (OffVariation flag_gated) = Inr v_off"
    by (simp_all add: flag_plain_off_def flag_gated_def flag_base_def v_on_def v_off_def)
  have fails: "Prerequisites flag_gated \<noteq> None \<and>
      checkPreRequisite 3 test_helpers test_evaluator flag_gated (Some test_target)
        = Some (False, None) \<and>
      (None \<noteq> (None :: error option) \<or> \<not> False)"
    by (simp add: test_defs evaluateFlag_def evaluateFlag_variation_def contains_def
        numeral_3_eq_3)
  from evaluate_off_variation [OF q f1 k1, THEN conjunct2, THEN conjunct1, rule_format, OF off,
      where n = 3 and h = test_helpers and target = "Some test_target"]
  have w1: "evaluate 3 test_helpers test_evaluator ''plain_off'' (Some test_target) ''boolean''
      = Some (Inr v_off)"
    by (simp only: none served simp_thms if_False)
  from evaluate_off_variation [OF q f2 k2, THEN conjunct2, THEN conjunct2, rule_format, OF fails]
  have w2: "evaluate 3 test_helpers test_evaluator ''gated'' (Some test_target) ''boolean''
      = Some (Inr v_off)"
    by (simp only: served')
  from w1 w2 show ?thesis
    by (intro conjI)
qed

subsection \<open>Prerequisites\<close>

lemma checkPreRequisite_loop_step:
  "prerequisite_checkable n h e q target pre \<Longrightarrow>
   checkPreRequisite_loop n h e q (pre # rest) target =
     (if prerequisite_holds n h e q target pre
      then checkPreRequisite_loop n h e q rest target
      else Some (False, None))"
  by (auto simp add: prerequisite_checkable_def prerequisite_holds_def
      split: sum.splits option.splits prod.splits)

lemma checkPreRequisite_loop_prefix:
  "list_all (prerequisite_checkable n h e q target) before \<Longrightarrow>
   list_all (prerequisite_holds n h e q target) before \<Longrightarrow>
   checkPreRequisite_loop n h e q (before @ rest) target =
   checkPreRequisite_loop n h e q rest target"
  by (induction before)
    (simp_all add: checkPreRequisite_loop_step del: checkPreRequisite_loop.simps)

text \<open>
  C3, as the claim states it, fails: the flag \<^verbatim>\<open>gated\<close>, fully evaluated, serves its
  off variation (its own prerequisite is not satisfied), and \<^verbatim>\<open>off\<close> is the variation
  that the flag \<^verbatim>\<open>top\<close> requires of it; yet the prerequisite check of \<^verbatim>\<open>top\<close> fails,
  because it compares with what \<^verbatim>\<open>evaluateFlag\<close> serves for \<^verbatim>\<open>gated\<close>, which is \<^verbatim>\<open>on\<close>.
\<close>

theorem prerequisite_full_evaluation_allowed_yet_unsatisfied:
  "evaluate 3 test_helpers test_evaluator ''gated'' (Some test_target) ''boolean''
     = Some (Inr v_off) \<and>
   Prerequisites flag_top
     = Some [\<lparr>Prerequisite.Feature = ''gated'', Variations = [''off'']\<rparr>] \<and>
   contains [''off''] (Variation.Identifier v_off) \<and>
   map_option snd (evaluateFlag 3 test_helpers test_query flag_gated (Some test_target))
     = Some (Inr v_on) \<and>
   checkPreRequisite 3 test_helpers test_evaluator flag_top (Some test_target)
     = Some (False, None)"
  by (simp add: test_defs evaluate_def evaluateFlag_def evaluateFlag_variation_def
      contains_def numeral_3_eq_3)

lemma checkPreRequisite_own_prerequisites:
  "query e = Some q \<Longrightarrow>
   checkPreRequisite (Suc m) h e fc target =
     checkPreRequisite_loop m h e q (own_prerequisites fc) target"
  by (simp add: own_prerequisites_def split: option.splits)

text \<open>
  C3, amended. Take a flag with prerequisites in whose chain, walked depth first up to
  the first prerequisite that is not satisfied, every prerequisite flag is found and
  is served a variation by \<^verbatim>\<open>evaluateFlag\<close>. A prerequisite is satisfied exactly when
  the variation that \<^verbatim>\<open>evaluateFlag\<close> serves for its flag (from the flag's state,
  overrides, rules and default serve; the flag's own prerequisites do not change it) is
  in the allowed set and the prerequisites of that flag are satisfied in their turn.
  The check of the flag at the top returns, without an error, and passes exactly when
  all the prerequisites of the chain are satisfied: one that is not, anywhere in the
  chain, fails it.
\<close>

theorem checkPreRequisite_chain_satisfied:
  assumes "query e = Some q"
    and "chain_checkable n h q target (own_prerequisites fc)"
  shows "checkPreRequisite (Suc n) h e fc target =
           Some (chain_satisfied n h q target (own_prerequisites fc), None)"
proof -
  have loop: "checkPreRequisite_loop k h e q prerequisites target =
      Some (chain_satisfied k h q target prerequisites, None)"
    if "chain_checkable k h q target prerequisites" for k prerequisites
    using that
  proof (induction k arbitrary: prerequisites)
    case 0
    then show ?case
      by (cases prerequisites) (auto split: sum.splits option.splits prod.splits)
  next
    case (Suc m)
    from Suc.prems show ?case
    proof (induction prerequisites)
      case Nil
      show ?case by simp
    next
      case (Cons pre rest)
      from Cons.prems obtain flag flag' v where
        found: "GetFlag q (Prerequisite.Feature pre) = Inr flag" and
        served: "evaluateFlag (Suc m) h q flag target = Some (flag', Inr v)"
        by (auto split: sum.splits option.splits prod.splits)
      from served have own: "own_prerequisites flag' = own_prerequisites flag"
        by (simp add: own_prerequisites_def evaluateFlag_Prerequisites)
      have nested: "checkPreRequisite (Suc m) h e flag' target =
          checkPreRequisite_loop m h e q (own_prerequisites flag) target"
        using assms(1) own by (simp only: checkPreRequisite_own_prerequisites)
      show ?case
      proof (cases "contains (Prerequisite.Variations pre) (Variation.Identifier v)")
        case False
        with found served show ?thesis
          by simp
      next
        case True
        with Cons.prems found served
        have deeper: "chain_checkable m h q target (own_prerequisites flag)"
          and further: "chain_satisfied m h q target (own_prerequisites flag) \<Longrightarrow>
            chain_checkable (Suc m) h q target rest"
          by simp_all
        from deeper have below: "checkPreRequisite_loop m h e q (own_prerequisites flag) target =
            Some (chain_satisfied m h q target (own_prerequisites flag), None)"
          by (rule Suc.IH)
        show ?thesis
        proof (cases "chain_satisfied m h q target (own_prerequisites flag)")
          case False
          with found served True nested below show ?thesis
            by (simp del: checkPreRequisite.simps)
        next
          case satisfied: True
          then have "chain_checkable (Suc m) h q target rest"
            by (rule further)
          then have "checkPreRequisite_loop (Suc m) h e q rest target =
              Some (chain_satisfied (Suc m) h q target rest, None)"
            by (rule Cons.IH)
          with found served True nested below satisfied show ?thesis
            by (simp del: checkPreRequisite.simps)
        qed
      qed
    qed
  qed
  from assms(1) have "checkPreRequisite (Suc n) h e fc target =
      checkPreRequisite_loop n h e q (own_prerequisites fc) target"
    by (rule checkPreRequisite_own_prerequisites)
  also from assms(2) have "\<dots> = Some (chain_satisfied n h q target (own_prerequisites fc), None)"
    by (rule loop)
  finally show ?thesis .
qed

theorem checkPreRequisite_chain_satisfied_witness:
  "checkPreRequisite 3 test_helpers test_evaluator flag_deep (Some test_target)
     = Some (True, None)
 \<and> checkPreRequisite 3 test_helpers test_evaluator flag_top (Some test_target)
     = Some (False, None)
 \<and> checkPreRequisite 3 test_helpers test_evaluator flag_deep_unsatisfied (Some test_target)
     = Some (False, None)"
proof -
  have q: "query test_evaluator = Some test_query"
    by (simp add: test_evaluator_def)
  have c1: "chain_checkable 2 test_helpers test_query (Some test_target)
      (own_prerequisites flag_deep)"
    by (simp add: own_prerequisites_def test_defs evaluateFlag_def
        evaluateFlag_variation_def contains_def numeral_2_eq_2)
  have c2: "chain_checkable 2 test_helpers test_query (Some test_target)
      (own_prerequisites flag_top)"
    by (simp add: own_prerequisites_def test_defs evaluateFlag_def
        evaluateFlag_variation_def contains_def numeral_2_eq_2)
  have s1: "chain_satisfied 2 test_helpers test_query (Some test_target)
      (own_prerequisites flag_deep)"
    by (simp add: own_prerequisites_def test_defs evaluateFlag_def
        evaluateFlag_variation_def contains_def numeral_2_eq_2)
  have s2: "\<not> chain_satisfied 2 test_helpers test_query (Some test_target)
      (own_prerequisites flag_top)"
    by (simp add: own_prerequisites_def test_defs evaluateFlag_def
        evaluateFlag_variation_def contains_def numeral_2_eq_2)
  have three: "(3::nat) = Suc 2"
    by simp
  from checkPreRequisite_chain_satisfied [OF q c1] s1
  have w1: "checkPreRequisite 3 test_helpers test_evaluator flag_deep (Some test_target)
      = Some (True, None)"
    by (simp only: three)
  from checkPreRequisite_chain_satisfied [OF q c2] s2
  have w2: "checkPreRequisite 3 test_helpers test_evaluator flag_top (Some test_target)
      = Some (False, None)"
    by (simp only: three)
  have c3: "chain_checkable 2 test_helpers test_query (Some test_target)
      (own_prerequisites flag_deep_unsatisfied)"
    by (simp add: own_prerequisites_def test_defs evaluateFlag_def
        evaluateFlag_variation_def contains_def numeral_2_eq_2)
  have s3: "\<not> chain_satisfied 2 test_helpers test_query (Some test_target)
      (own_prerequisites flag_deep_unsatisfied)"
    by (simp add: own_prerequisites_def test_defs evaluateFlag_def
        evaluateFlag_variation_def contains_def numeral_2_eq_2)
  from checkPreRequisite_chain_satisfied [OF q c3] s3
  have w3: "checkPreRequisite 3 test_helpers test_evaluator flag_deep_unsatisfied
      (Some test_target) = Some (False, None)"
    by (simp only: three)
  from w1 w2 w3 show ?thesis
    by (intro conjI)
qed

subsection \<open>The typed accessors absorb every error\<close>

text \<open>
  C4. Whenever \<^verbatim>\<open>evaluate\<close> returns an error, each typed accessor returns the default
  value of its caller, and so do \<^verbatim>\<open>IntVariation\<close>, \<^verbatim>\<open>NumberVariation\<close> and
  \<^verbatim>\<open>JSONVariation\<close> when the value of the served variation does not decode. A missing
  lookup provider, a failed flag lookup, a kind other than the expected one and a
  resolved ident that is not among the flag's variations each make \<^verbatim>\<open>evaluate\<close>
  return an error, for every fuel. The result of an accessor is a plain value: there
  is no error for its caller to see.
\<close>

theorem typed_accessors_absorb_errors:
  "(evaluate n h e ident target ''boolean'' = Some (Inl err) \<longrightarrow>
      BoolVariation n h e ident target defaultBool = Some defaultBool)
 \<and> (evaluate n h e ident target ''string'' = Some (Inl err) \<longrightarrow>
      StringVariation n h e ident target defaultString = Some defaultString)
 \<and> (evaluate n h e ident target ''int'' = Some (Inl err) \<longrightarrow>
      IntVariation Atoi n h e ident target defaultInt = Some defaultInt \<and>
      NumberVariation ParseFloat n h e ident target defaultNumber = Some defaultNumber)
 \<and> (evaluate n h e ident target ''json'' = Some (Inl err) \<longrightarrow>
      JSONVariation Unmarshal n h e ident target defaultJSON = Some defaultJSON)
 \<and> (evaluate n h e ident target ''int'' = Some (Inr variation) \<and>
      Atoi (Value variation) = Inl err \<longrightarrow>
      IntVariation Atoi n h e ident target defaultInt = Some defaultInt)
 \<and> (evaluate n h e ident target ''int'' = Some (Inr variation) \<and>
      ParseFloat (Value variation) = Inl err \<longrightarrow>
      NumberVariation ParseFloat n h e ident target defaultNumber = Some defaultNumber)
 \<and> (evaluate n h e ident target ''json'' = Some (Inr variation) \<and>
      Unmarshal (Value variation) = Inl err \<longrightarrow>
      JSONVariation Unmarshal n h e ident target defaultJSON = Some defaultJSON)
 \<and> (query e = None \<longrightarrow>
      evaluate n h e ident target kind = Some (Inl ErrQueryProviderMissing))
 \<and> (query e = Some q \<and> GetFlag q ident = Inl err \<longrightarrow>
      evaluate n h e ident target kind = Some (Inl err))
 \<and> (query e = Some q \<and> GetFlag q ident = Inr flag \<and> Kind flag \<noteq> kind \<longrightarrow>
      evaluate n h e ident target kind = Some (Inl (ErrFlagKindMismatch kind (Kind flag))))
 \<and> (query e = Some q \<and> GetFlag q ident = Inr flag \<and> Kind flag = kind \<and>
      Prerequisites flag = None \<and>
      evaluateFlag_variation n h q flag target = Some (flag', resolved) \<and> resolved \<noteq> '''' \<and>
      findVariation (FeatureConfig.Variations flag) resolved = Inl err \<longrightarrow>
      evaluate n h e ident target kind = Some (Inl err))"
proof (intro conjI impI)
  assume "evaluate n h e ident target ''boolean'' = Some (Inl err)"
  then show "BoolVariation n h e ident target defaultBool = Some defaultBool"
    by (simp add: BoolVariation_def)
next
  assume "evaluate n h e ident target ''string'' = Some (Inl err)"
  then show "StringVariation n h e ident target defaultString = Some defaultString"
    by (simp add: StringVariation_def)
next
  assume "evaluate n h e ident target ''int'' = Some (Inl err)"
  then show "IntVariation Atoi n h e ident target defaultInt = Some defaultInt"
    and "NumberVariation ParseFloat n h e ident target defaultNumber = Some defaultNumber"
    by (simp_all add: IntVariation_def NumberVariation_def)
next
  assume "evaluate n h e ident target ''json'' = Some (Inl err)"
  then show "JSONVariation Unmarshal n h e ident target defaultJSON = Some defaultJSON"
    by (simp add: JSONVariation_def)
next
  assume "evaluate n h e ident target ''int'' = Some (Inr variation) \<and>
    Atoi (Value variation) = Inl err"
  then show "IntVariation Atoi n h e ident target defaultInt = Some defaultInt"
    by (simp add: IntVariation_def)
next
  assume "evaluate n h e ident target ''int'' = Some (Inr variation) \<and>
    ParseFloat (Value variation) = Inl err"
  then show "NumberVariation ParseFloat n h e ident target defaultNumber = Some defaultNumber"
    by (simp add: NumberVariation_def)
next
  assume "evaluate n h e ident target ''json'' = Some (Inr variation) \<and>
    Unmarshal (Value variation) = Inl err"
  then show "JSONVariation Unmarshal n h e ident target defaultJSON = Some defaultJSON"
    by (simp add: JSONVariation_def)
next
  assume "query e = None"
  then show "evaluate n h e ident target kind = Some (Inl ErrQueryProviderMissing)"
    by (simp add: evaluate_def)
next
  assume "query e = Some q \<and> GetFlag q ident = Inl err"
  then show "evaluate n h e ident target kind = Some (Inl err)"
    by (simp add: evaluate_def)
next
  assume "query e = Some q \<and> GetFlag q ident = Inr flag \<and> Kind flag \<noteq> kind"
  then show "evaluate n h e ident target kind =
      Some (Inl (ErrFlagKindMismatch kind (Kind flag)))"
    by (simp add: evaluate_def)
next
  assume "query e = Some q \<and> GetFlag q ident = Inr flag \<and> Kind flag = kind \<and>
      Prerequisites flag = None \<and>
      evaluateFlag_variation n h q flag target = Some (flag', resolved) \<and> resolved \<noteq> '''' \<and>
      findVariation (FeatureConfig.Variations flag) resolved = Inl err"
  then show "evaluate n h e ident target kind = Some (Inl err)"
    by (simp add: evaluate_def evaluateFlag_def)
qed

theorem typed_accessors_absorb_errors_witness:
  "StringVariation 2 test_helpers test_evaluator2 ''serves_on'' (Some test_target) ''fallback''
     = Some ''fallback''
 \<and> BoolVariation 2 test_helpers test_evaluator2 ''unknown'' (Some test_target) True = Some True
 \<and> BoolVariation 2 test_helpers test_evaluator2 ''dangling'' (Some test_target) True = Some True
 \<and> IntVariation test_Atoi 2 test_helpers test_evaluator2 ''limit'' (Some test_target) 7 = Some 7
 \<and> JSONVariation test_Atoi 2 test_helpers \<lparr>query = None, postEvalCallback = None\<rparr> ''limit''
      (Some test_target) 0 = Some 0"
proof -
  note T = typed_accessors_absorb_errors
  note rest = conjunct2 [THEN conjunct2, THEN conjunct2, THEN conjunct2]
  note on_error_bool = T [THEN conjunct1, rule_format]
  note on_error_string = T [THEN conjunct2, THEN conjunct1, rule_format]
  note on_error_json = T [THEN conjunct2, THEN conjunct2, THEN conjunct2, THEN conjunct1, rule_format]
  note on_decode_int = T [THEN rest, THEN conjunct1, rule_format]
  note no_provider = T [THEN rest, THEN conjunct2, THEN conjunct2, THEN conjunct2, THEN conjunct1, rule_format]
  note no_flag = T [THEN rest, THEN rest, THEN conjunct1, rule_format]
  note other_kind = T [THEN rest, THEN rest, THEN conjunct2, THEN conjunct1, rule_format]
  note no_variation = T [THEN rest, THEN rest, THEN conjunct2, THEN conjunct2, rule_format]
  have q: "query test_evaluator2 = Some test_query2"
    by (simp add: test_evaluator2_def)
  have "evaluate 2 test_helpers test_evaluator2 ''serves_on'' (Some test_target) ''string''
      = Some (Inl (ErrFlagKindMismatch ''string'' (Kind (flag_base ''serves_on'' ''on''))))"
    by (rule other_kind [where q = test_query2]) (simp add: q test_query2_def flag_base_def)
  then have w1: "StringVariation 2 test_helpers test_evaluator2 ''serves_on'' (Some test_target)
      ''fallback'' = Some ''fallback''"
    by (rule on_error_string)
  have "evaluate 2 test_helpers test_evaluator2 ''unknown'' (Some test_target) ''boolean''
      = Some (Inl (ErrExternal ''unknown''))"
    by (rule no_flag [where q = test_query2]) (simp add: q test_query2_def)
  then have w2: "BoolVariation 2 test_helpers test_evaluator2 ''unknown'' (Some test_target) True
      = Some True"
    by (rule on_error_bool)
  have "evaluate 2 test_helpers test_evaluator2 ''dangling'' (Some test_target) ''boolean''
      = Some (Inl (ErrVariationNotFound ''purple''))"
    by (rule no_variation [where q = test_query2 and flag = "flag_base ''dangling'' ''purple''"
          and flag' = "flag_base ''dangling'' ''purple''" and resolved = "''purple''"])
      (simp add: q test_query2_def flag_base_def evaluateFlag_variation_def test_helpers_def
        serve_variation_def v_on_def v_off_def)
  then have w3: "BoolVariation 2 test_helpers test_evaluator2 ''dangling'' (Some test_target) True
      = Some True"
    by (rule on_error_bool)
  have w4: "IntVariation test_Atoi 2 test_helpers test_evaluator2 ''limit'' (Some test_target) 7
      = Some 7"
    by (rule on_decode_int
          [where variation = "\<lparr>Variation.Identifier = ''big'', Value = ''not_a_number''\<rparr>"
            and err = "ErrExternal ''not_a_number''"])
      (simp add: evaluate_def evaluateFlag_def evaluateFlag_variation_def test_evaluator2_def
        test_query2_def flag_int_def flag_base_def test_helpers_def serve_variation_def
        test_Atoi_def)
  have "evaluate 2 test_helpers \<lparr>query = None, postEvalCallback = None\<rparr> ''limit''
      (Some test_target) ''json'' = Some (Inl ErrQueryProviderMissing)"
    by (rule no_provider) simp
  then have w5: "JSONVariation test_Atoi 2 test_helpers \<lparr>query = None, postEvalCallback = None\<rparr>
      ''limit'' (Some test_target) 0 = Some 0"
    by (rule on_error_json)
  show ?thesis
    using w1 w2 w3 w4 w5 by simp
qed

subsection \<open>Segment membership\<close>

lemma isTargetIncludedOrExcludedInSegment_passes:
  "list_all (segment_passes n h q target) before \<Longrightarrow>
   isTargetIncludedOrExcludedInSegment (Suc n) h q (before @ rest) target =
   isTargetIncludedOrExcludedInSegment (Suc n) h q rest target"
  by (induction before) (auto simp add: segment_passes_def split: sum.splits option.splits)

text \<open>
  C5, as the claim states it, fails where a lookup fails: a listed segment includes the
  target, no listed segment excludes it, and the call returns false, because the
  identifier listed first is unknown to the lookup provider.
\<close>

theorem segment_included_after_failed_lookup:
  "segment_includes 0 test_helpers test_query test_target ''beta'' \<and>
   \<not> segment_excludes test_query test_target ''unknown'' \<and>
   \<not> segment_excludes test_query test_target ''beta'' \<and>
   isTargetIncludedOrExcludedInSegment 1 test_helpers test_query [''unknown'', ''beta'']
     test_target = Some False"
  by (simp add: segment_includes_def segment_excludes_def test_query_def segment_defs
      isTargetInList_def test_target_def)

text \<open>
  C5, amended. The segment resolver returns true when a listed segment includes the
  target (through its inclusion list or through its rule clauses all matching) and
  every identifier listed before it is passed over; it returns false at once, whatever
  identifiers follow, when the segment it has reached has the target in its exclusion
  list, or when the lookup of the identifier it has reached fails. A target in both
  the exclusion and the inclusion list of a segment is not included.
\<close>

theorem isTargetIncludedOrExcludedInSegment_resolution:
  "(list_all (segment_passes n h q target) before \<and>
      segment_includes n h q target segmentIdentifier \<longrightarrow>
      isTargetIncludedOrExcludedInSegment (Suc n) h q (before @ segmentIdentifier # following)
        target = Some True)
 \<and> (list_all (segment_passes n h q target) before \<and>
      segment_excludes q target segmentIdentifier \<longrightarrow>
      isTargetIncludedOrExcludedInSegment (Suc n) h q (before @ segmentIdentifier # following)
        target = Some False)
 \<and> (list_all (segment_passes n h q target) before \<and>
      GetSegment q segmentIdentifier = Inl err \<longrightarrow>
      isTargetIncludedOrExcludedInSegment (Suc n) h q (before @ segmentIdentifier # following)
        target = Some False)
 \<and> (GetSegment q segmentIdentifier = Inr segment \<and>
      Excluded segment = Some ex \<and> isTargetInList target ex \<and>
      Included segment = Some inc \<and> isTargetInList target inc \<longrightarrow>
      isTargetIncludedOrExcludedInSegment (Suc n) h q (segmentIdentifier # following) target
        = Some False)"
proof (intro conjI impI)
  assume a: "list_all (segment_passes n h q target) before \<and>
    segment_includes n h q target segmentIdentifier"
  then have "isTargetIncludedOrExcludedInSegment (Suc n) h q (segmentIdentifier # following)
      target = Some True"
    by (auto simp add: segment_includes_def split: sum.splits option.splits)
  with a show "isTargetIncludedOrExcludedInSegment (Suc n) h q
      (before @ segmentIdentifier # following) target = Some True"
    by (simp add: isTargetIncludedOrExcludedInSegment_passes)
next
  assume a: "list_all (segment_passes n h q target) before \<and>
    segment_excludes q target segmentIdentifier"
  then have "isTargetIncludedOrExcludedInSegment (Suc n) h q (segmentIdentifier # following)
      target = Some False"
    by (auto simp add: segment_excludes_def split: sum.splits option.splits)
  with a show "isTargetIncludedOrExcludedInSegment (Suc n) h q
      (before @ segmentIdentifier # following) target = Some False"
    by (simp add: isTargetIncludedOrExcludedInSegment_passes)
next
  assume a: "list_all (segment_passes n h q target) before \<and>
    GetSegment q segmentIdentifier = Inl err"
  then have "isTargetIncludedOrExcludedInSegment (Suc n) h q (segmentIdentifier # following)
      target = Some False"
    by simp
  with a show "isTargetIncludedOrExcludedInSegment (Suc n) h q
      (before @ segmentIdentifier # following) target = Some False"
    by (simp add: isTargetIncludedOrExcludedInSegment_passes)
next
  assume "GetSegment q segmentIdentifier = Inr segment \<and>
      Excluded segment = Some ex \<and> isTargetInList target ex \<and>
      Included segment = Some inc \<and> isTargetInList target inc"
  then show "isTargetIncludedOrExcludedInSegment (Suc n) h q (segmentIdentifier # following)
      target = Some False"
    by simp
qed

theorem isTargetIncludedOrExcludedInSegment_resolution_witness:
  "isTargetIncludedOrExcludedInSegment 1 test_helpers test_query
     ([''nobody''] @ ''adults'' # [''banned'']) test_target = Some True
 \<and> isTargetIncludedOrExcludedInSegment 1 test_helpers test_query
     ([''nobody''] @ ''banned'' # [''beta'']) test_target = Some False
 \<and> isTargetIncludedOrExcludedInSegment 1 test_helpers test_query
     ([''nobody''] @ ''unknown'' # [''beta'']) test_target = Some False
 \<and> isTargetIncludedOrExcludedInSegment 1 test_helpers test_query
     (''banned'' # [''beta'']) test_target = Some False"
proof -
  note T = isTargetIncludedOrExcludedInSegment_resolution
  have passes: "list_all (segment_passes 0 test_helpers test_query test_target) [''nobody'']"
    by (simp add: segment_passes_def test_query_def segment_defs isTargetInList_def)
  have incl: "segment_includes 0 test_helpers test_query test_target ''adults''"
    by (simp add: segment_includes_def test_query_def segment_defs test_helpers_def
        test_target_def operator_defs IsValid_def) code_simp
  have excl: "segment_excludes test_query test_target ''banned''"
    by (simp add: segment_excludes_def test_query_def segment_defs isTargetInList_def
        test_target_def)
  have fails: "GetSegment test_query ''unknown'' = Inl (ErrExternal ''unknown'')"
    by (simp add: test_query_def)
  have both: "GetSegment test_query ''banned'' = Inr segment_banned \<and>
      Excluded segment_banned = Some [rest_u1] \<and> isTargetInList test_target [rest_u1] \<and>
      Included segment_banned = Some [rest_u1] \<and> isTargetInList test_target [rest_u1]"
    by (simp add: test_query_def segment_defs isTargetInList_def test_target_def)
  have w1: "isTargetIncludedOrExcludedInSegment 1 test_helpers test_query
      ([''nobody''] @ ''adults'' # [''banned'']) test_target = Some True"
    unfolding One_nat_def
    by (rule T [THEN conjunct1, rule_format]) (simp only: passes incl)
  have w2: "isTargetIncludedOrExcludedInSegment 1 test_helpers test_query
      ([''nobody''] @ ''banned'' # [''beta'']) test_target = Some False"
    unfolding One_nat_def
    by (rule T [THEN conjunct2, THEN conjunct1, rule_format]) (simp only: passes excl)
  have w3: "isTargetIncludedOrExcludedInSegment 1 test_helpers test_query
      ([''nobody''] @ ''unknown'' # [''beta'']) test_target = Some False"
    unfolding One_nat_def
    by (rule T [THEN conjunct2, THEN conjunct2, THEN conjunct1, rule_format])
      (simp only: passes fails)
  have w4: "isTargetIncludedOrExcludedInSegment 1 test_helpers test_query
      (''banned'' # [''beta'']) test_target = Some False"
    unfolding One_nat_def
    by (rule T [THEN conjunct2, THEN conjunct2, THEN conjunct2, rule_format]) (rule both)
  show ?thesis
    using w1 w2 w3 w4 by (intro conjI)
qed

subsection \<open>Rules in priority order\<close>

lemma evaluateRules_loop_first_served:
  "evaluateRules_loop n h q rules target =
     (if list_all (\<lambda>rule. evaluateRule n h q rule target \<noteq> None)
           (takeWhile (\<lambda>rule. \<not> served_match n h q target rule) rules)
      then Some (case find (served_match n h q target) rules of
                   None \<Rightarrow> ''''
                 | Some rule \<Rightarrow> rule_outcome h target rule)
      else None)"
proof (induction rules)
  case Nil
  show ?case by simp
next
  case (Cons rule rules)
  show ?case
  proof (cases "evaluateRule n h q rule target")
    case None
    then show ?thesis
      by (simp add: served_match_def)
  next
    case (Some matched)
    show ?thesis
    proof (cases "matched \<and> serves_something rule")
      case True
      with Some show ?thesis
        by (auto simp add: served_match_def serves_something_def rule_outcome_def
            split: option.splits)
    next
      case False
      with Some have passed: "\<not> served_match n h q target rule"
        by (simp add: served_match_def)
      from False Some have "evaluateRules_loop n h q (rule # rules) target =
          evaluateRules_loop n h q rules target"
        by (cases matched) (auto simp add: serves_something_def)
      with passed Some Cons.IH show ?thesis
        by (simp del: evaluateRules_loop.simps)
    qed
  qed
qed

text \<open>
  C6, as the claim states it, fails for a rule that serves nothing. Of the rules
  \<^verbatim>\<open>rule_none\<close> (priority 1, neither a distribution nor a variation) and \<^verbatim>\<open>rule_p2\<close>
  (priority 2, variation B), whose clauses both match, the first in priority order is
  \<^verbatim>\<open>rule_none\<close>; the result is B, the outcome of the rule of priority 2.
\<close>

theorem matching_rule_without_outcome_is_skipped:
  "sort_key Priority [rule_none, rule_p2] = [rule_none, rule_p2] \<and>
   Priority rule_none = 1 \<and> Priority rule_p2 = 2 \<and>
   evaluateRule 0 test_helpers test_query rule_none test_target = Some True \<and>
   evaluateRule 0 test_helpers test_query rule_p2 test_target = Some True \<and>
   find (\<lambda>rule. evaluateRule 0 test_helpers test_query rule test_target = Some True)
     (sort_key Priority [rule_none, rule_p2]) = Some rule_none \<and>
   rule_outcome test_helpers test_target rule_none = '''' \<and>
   rule_outcome test_helpers test_target rule_p2 = ''B'' \<and>
   evaluateRules 0 test_helpers test_query [rule_none, rule_p2] (Some test_target) =
     Some ([rule_none, rule_p2], ''B'')"
  by (simp add: evaluateRules_def evaluateRule_def rule_outcome_def rule_none_def rule_defs
      serve_variation_def Let_def)

text \<open>
  C6, amended. \<^verbatim>\<open>evaluateRules\<close> leaves the rule list sorted by ascending priority,
  rules of equal priority in their original order, and returns the outcome of the
  first rule of the sorted list whose clauses all match and that serves a distribution
  or a variation (the empty string when there is none); a rule whose clauses match and
  that serves neither is passed over. The call returns exactly when the evaluation of
  every rule before that first one returns. For rules of priorities 3, 1 and 2, in this
  order, whose clauses match false, true and true, the outcome of the rule of priority
  1 is returned if that rule serves a distribution or a variation.
\<close>

theorem evaluateRules_priority_order:
  "evaluateRules n h q servingRules (Some target) =
     (if list_all (\<lambda>rule. evaluateRule n h q rule target \<noteq> None)
           (takeWhile (\<lambda>rule. \<not> served_match n h q target rule)
              (sort_key Priority servingRules))
      then Some (sort_key Priority servingRules,
             case find (served_match n h q target) (sort_key Priority servingRules) of
               None \<Rightarrow> ''''
             | Some rule \<Rightarrow> rule_outcome h target rule)
      else None)
   \<and> sorted (map Priority (sort_key Priority servingRules))
   \<and> (\<forall>k. filter (\<lambda>rule. Priority rule = k) (sort_key Priority servingRules) =
            filter (\<lambda>rule. Priority rule = k) servingRules)
   \<and> (servingRules = [r3, r1, r2] \<and>
        Priority r3 = 3 \<and> Priority r1 = 1 \<and> Priority r2 = 2 \<and>
        evaluateRule n h q r3 target = Some False \<and>
        evaluateRule n h q r1 target = Some True \<and>
        evaluateRule n h q r2 target = Some True \<and>
        serves_something r1 \<longrightarrow>
        evaluateRules n h q servingRules (Some target) =
          Some ([r1, r2, r3], rule_outcome h target r1))"
proof -
  let ?sorted = "sort_key Priority servingRules"
  have result: "evaluateRules n h q servingRules (Some target) =
     (if list_all (\<lambda>rule. evaluateRule n h q rule target \<noteq> None)
           (takeWhile (\<lambda>rule. \<not> served_match n h q target rule) ?sorted)
      then Some (?sorted,
             case find (served_match n h q target) ?sorted of
               None \<Rightarrow> ''''
             | Some rule \<Rightarrow> rule_outcome h target rule)
      else None)"
  proof (cases "servingRules = []")
    case True
    then show ?thesis by (simp add: evaluateRules_def)
  next
    case False
    then show ?thesis
      by (simp add: evaluateRules_def Let_def evaluateRules_loop_first_served)
  qed
  have ascending: "sorted (map Priority ?sorted)"
    by (rule sorted_sort_key)
  have stable: "\<forall>k. filter (\<lambda>rule. Priority rule = k) ?sorted =
      filter (\<lambda>rule. Priority rule = k) servingRules"
    by (simp add: sort_key_stable)
  have example: "evaluateRules n h q servingRules (Some target) =
      Some ([r1, r2, r3], rule_outcome h target r1)"
    if "servingRules = [r3, r1, r2] \<and>
        Priority r3 = 3 \<and> Priority r1 = 1 \<and> Priority r2 = 2 \<and>
        evaluateRule n h q r3 target = Some False \<and>
        evaluateRule n h q r1 target = Some True \<and>
        evaluateRule n h q r2 target = Some True \<and>
        serves_something r1"
  proof -
    from that have "?sorted = [r1, r2, r3]"
      by simp
    moreover from that have "served_match n h q target r1"
      by (simp add: served_match_def)
    ultimately show ?thesis
      using result by simp
  qed
  from result ascending stable example show ?thesis
    by blast
qed

theorem evaluateRules_priority_order_witness:
  "evaluateRules 0 test_helpers test_query [rule_p3, rule_p1, rule_p2] (Some test_target) =
     Some ([rule_p1, rule_p2, rule_p3], ''A'')"
proof -
  have r3: "evaluateRule 0 test_helpers test_query rule_p3 test_target = Some False"
    by (simp add: evaluateRule_def rule_defs test_helpers_def test_target_def operator_defs
        IsValid_def)
  have r1: "evaluateRule 0 test_helpers test_query rule_p1 test_target = Some True"
    by (simp add: evaluateRule_def rule_defs test_helpers_def test_target_def operator_defs
        IsValid_def)
  have r2: "evaluateRule 0 test_helpers test_query rule_p2 test_target = Some True"
    by (simp add: evaluateRule_def rule_defs)
  have serves: "serves_something rule_p1"
    by (simp add: serves_something_def rule_defs serve_variation_def)
  have example: "[rule_p3, rule_p1, rule_p2] = [rule_p3, rule_p1, rule_p2] \<and>
      Priority rule_p3 = 3 \<and> Priority rule_p1 = 1 \<and> Priority rule_p2 = 2 \<and>
      evaluateRule 0 test_helpers test_query rule_p3 test_target = Some False \<and>
      evaluateRule 0 test_helpers test_query rule_p1 test_target = Some True \<and>
      evaluateRule 0 test_helpers test_query rule_p2 test_target = Some True \<and>
      serves_something rule_p1"
    using r3 r1 r2 serves by (simp add: rule_defs)
  have outcome: "rule_outcome test_helpers test_target rule_p1 = ''A''"
    by (simp add: rule_outcome_def rule_defs serve_variation_def)
  from evaluateRules_priority_order [THEN conjunct2, THEN conjunct2,
      THEN conjunct2, rule_format, OF example]
  show ?thesis
    by (simp only: outcome)
qed

subsection \<open>Attribute values of other kinds\<close>

lemma FormatInt_decimal:
  "FormatInt 42 = ''42'' \<and> FormatInt (- 7) = ''-7'' \<and> FormatInt 0 = ''0''"
  by code_simp

lemma object_of_canonical:
  "object_of (VInt i) = FormatInt i \<and> object_of (VBool True) = ''true'' \<and>
   object_of (VBool False) = ''false'' \<and> object_of (VString s) = s"
  by (simp add: FormatBool_def)

text \<open>
  C7. Integers, booleans and strings are turned into text as the claim says, but an
  attribute value of any other kind becomes the empty string, not its text: a target
  whose attribute \<^verbatim>\<open>score\<close> is the float 1.5 does not match the clause
  \<^verbatim>\<open>score equal_sensitive "1.5"\<close>, and matches \<^verbatim>\<open>score equal_sensitive ""\<close>.
\<close>

theorem evaluateClause_other_kind_empty:
  "getAttrValue test_helpers test_target ''score'' = VOther ''1.5'' \<and>
   object_of (VOther ''1.5'') = '''' \<and>
   evaluateClause 0 test_helpers test_query
     (Some \<lparr>Attribute = ''score'', Op = equalSensitiveOperator, Values = [''1.5'']\<rparr>)
     test_target = Some False \<and>
   evaluateClause 0 test_helpers test_query
     (Some \<lparr>Attribute = ''score'', Op = equalSensitiveOperator, Values = ['''']\<rparr>)
     test_target = Some True"
  by (simp add: test_helpers_def test_target_def operator_defs IsValid_def Sprintf_v_def)

text \<open>
  C8, as the claim states it, fails: the check does not continue after a failed
  lookup. The prerequisite on \<^verbatim>\<open>serves_off\<close> is not satisfied, and the list with the
  unknown flag in front of it passes.
\<close>

theorem failed_lookup_skips_remaining_prerequisites:
  "GetFlag test_query ''unknown'' = Inl (ErrExternal ''unknown'') \<and>
   checkPreRequisite_loop 2 test_helpers test_evaluator test_query
     [\<lparr>Prerequisite.Feature = ''serves_off'', Variations = [''on'']\<rparr>] (Some test_target)
     = Some (False, None) \<and>
   checkPreRequisite_loop 2 test_helpers test_evaluator test_query
     [\<lparr>Prerequisite.Feature = ''unknown'', Variations = [''on'']\<rparr>,
      \<lparr>Prerequisite.Feature = ''serves_off'', Variations = [''on'']\<rparr>] (Some test_target)
     = Some (True, None)"
  by (simp add: test_defs evaluateFlag_def evaluateFlag_variation_def contains_def
      numeral_2_eq_2)

text \<open>
  C8, amended. When the lookup of a prerequisite flag fails, the prerequisite check
  ends there as satisfied (fail-open): with the prerequisites before it satisfied, the
  check passes whatever prerequisites follow, which are not checked, and the
  dependent flag is evaluated as if it had no prerequisites.
\<close>

theorem checkPreRequisite_lookup_failure:
  assumes "list_all (prerequisite_checkable n h e q target) before"
    and "list_all (prerequisite_holds n h e q target) before"
    and "GetFlag q (Prerequisite.Feature pre) = Inl err"
  shows "checkPreRequisite_loop n h e q (before @ pre # rest) target = Some (True, None)
       \<and> (query e = Some q \<and> Prerequisites fc = Some (before @ pre # rest) \<longrightarrow>
            checkPreRequisite (Suc n) h e fc target = Some (True, None))
       \<and> (query e = Some q \<and> GetFlag q ident = Inr fc \<and> Kind fc = kind \<and>
            Prerequisites fc = Some (before @ pre # rest) \<longrightarrow>
            evaluate (Suc n) h e ident target kind =
              map_option snd (evaluateFlag (Suc n) h q fc target))"
proof -
  from assms(3) have "checkPreRequisite_loop n h e q (pre # rest) target = Some (True, None)"
    by simp
  with assms(1,2) have loop:
    "checkPreRequisite_loop n h e q (before @ pre # rest) target = Some (True, None)"
    by (simp add: checkPreRequisite_loop_prefix)
  have check: "checkPreRequisite (Suc n) h e fc target = Some (True, None)"
    if "query e = Some q \<and> Prerequisites fc = Some (before @ pre # rest)"
    using that loop by simp
  have top: "evaluate (Suc n) h e ident target kind =
      map_option snd (evaluateFlag (Suc n) h q fc target)"
    if a: "query e = Some q \<and> GetFlag q ident = Inr fc \<and> Kind fc = kind \<and>
      Prerequisites fc = Some (before @ pre # rest)"
  proof -
    from a loop have "checkPreRequisite (Suc n) h e fc target = Some (True, None)"
      by simp
    with a show ?thesis
      by (simp add: evaluate_def split: option.splits sum.splits)
  qed
  from loop check top show ?thesis
    by blast
qed

theorem checkPreRequisite_lookup_failure_witness:
  "checkPreRequisite 3 test_helpers test_evaluator flag_orphan (Some test_target)
     = Some (True, None)
 \<and> evaluate 3 test_helpers test_evaluator ''orphan'' (Some test_target) ''boolean''
     = map_option snd (evaluateFlag 3 test_helpers test_query flag_orphan (Some test_target))
 \<and> map_option snd (evaluateFlag 3 test_helpers test_query flag_orphan (Some test_target))
     = Some (Inr v_on)"
proof -
  have q: "query test_evaluator = Some test_query"
    by (simp add: test_evaluator_def)
  have f: "GetFlag test_query ''orphan'' = Inr flag_orphan"
    by (simp add: test_query_def)
  have k: "Kind flag_orphan = ''boolean''"
    by (simp add: flag_orphan_def flag_base_def)
  have p: "Prerequisites flag_orphan =
      Some ([\<lparr>Prerequisite.Feature = ''serves_on'', Variations = [''on'']\<rparr>] @
        \<lparr>Prerequisite.Feature = ''unknown'', Variations = [''on'']\<rparr> #
        [\<lparr>Prerequisite.Feature = ''serves_off'', Variations = [''on'']\<rparr>])"
    by (simp add: flag_orphan_def flag_base_def)
  have c: "list_all (prerequisite_checkable 2 test_helpers test_evaluator test_query
      (Some test_target)) [\<lparr>Prerequisite.Feature = ''serves_on'', Variations = [''on'']\<rparr>]"
    by (auto simp add: prerequisite_checkable_def test_defs evaluateFlag_def
        evaluateFlag_variation_def contains_def numeral_2_eq_2)
  have s: "list_all (prerequisite_holds 2 test_helpers test_evaluator test_query
      (Some test_target)) [\<lparr>Prerequisite.Feature = ''serves_on'', Variations = [''on'']\<rparr>]"
    by (simp add: prerequisite_holds_def test_defs evaluateFlag_def
        evaluateFlag_variation_def contains_def numeral_2_eq_2)
  have l: "GetFlag test_query
      (Prerequisite.Feature \<lparr>Prerequisite.Feature = ''unknown'', Variations = [''on'']\<rparr>)
      = Inl (ErrExternal ''unknown'')"
    by (simp add: test_query_def)
  note T = checkPreRequisite_lookup_failure [OF c s l]
  have w1: "checkPreRequisite (Suc 2) test_helpers test_evaluator flag_orphan (Some test_target)
      = Some (True, None)"
    by (rule T [THEN conjunct2, THEN conjunct1, rule_format]) (simp only: q p)
  have w2: "evaluate (Suc 2) test_helpers test_evaluator ''orphan'' (Some test_target) ''boolean''
      = map_option snd
          (evaluateFlag (Suc 2) test_helpers test_query flag_orphan (Some test_target))"
    by (rule T [THEN conjunct2, THEN conjunct2, rule_format]) (simp only: q f k p)
  have w3: "map_option snd
      (evaluateFlag (Suc 2) test_helpers test_query flag_orphan (Some test_target))
      = Some (Inr v_on)"
    by (simp add: test_defs evaluateFlag_def evaluateFlag_variation_def)
  have three: "(3::nat) = Suc 2"
    by simp
  from w1 w2 w3 show ?thesis
    by (simp only: three)
qed

subsection \<open>The empty identifier means no match\<close>






end

